theory Spec2Isabelle
  imports Main
begin

section \<open>JavaScript values\<close>

text \<open>
  Values whose shape is only known at run time (the result of \<^verbatim>\<open>JSON.parse\<close>, what a
  cache entry holds, an optional property) are modelled by \<open>jsval\<close>. An absent property
  reads as \<open>Undefined\<close>. Numbers are modelled by integers. An object is the list of its
  own properties.
\<close>

datatype jsval =
    Undefined
  | Null
  | Bool bool
  | Num int
  | Str string
  | Arr "jsval list"
  | Obj "(string \<times> jsval) list"

text \<open>Truthiness, as tested by \<^verbatim>\<open>if (v)\<close>, \<^verbatim>\<open>v || w\<close> and \<^verbatim>\<open>filter(x => x.v)\<close>.\<close>

fun truthy :: "jsval \<Rightarrow> bool" where
  "truthy Undefined = False"
| "truthy Null = False"
| "truthy (Bool b) = b"
| "truthy (Num n) = (n \<noteq> 0)"
| "truthy (Str s) = (s \<noteq> [])"
| "truthy (Arr xs) = True"
| "truthy (Obj kvs) = True"

text \<open>
  A thrown value: the message, and the \<^verbatim>\<open>status\<close> and \<^verbatim>\<open>code\<close> properties that the
  provider's client library sets on its errors (absent on a plain \<^verbatim>\<open>Error\<close>).
\<close>

datatype js_error = JsError (message: string) (status: "int option") (code: "string option")

definition Error :: "string \<Rightarrow> js_error" where
  "Error msg = JsError msg None None"

section \<open>Strings\<close>

text \<open>
  Strings are byte strings here; \<^verbatim>\<open>toLowerCase\<close> and the white space class are the
  ASCII ones, and a byte outside ASCII is left as it is.
\<close>

definition lower_char :: "char \<Rightarrow> char" where
  "lower_char c =
     (case map_of (zip ''ABCDEFGHIJKLMNOPQRSTUVWXYZ'' ''abcdefghijklmnopqrstuvwxyz'') c of
        Some l \<Rightarrow> l
      | None \<Rightarrow> c)"

definition toLowerCase :: "string \<Rightarrow> string" where
  "toLowerCase s = map lower_char s"

text \<open>\<^verbatim>\<open>s.replace(/-/g, ' ')\<close>\<close>

definition hyphensToSpaces :: "string \<Rightarrow> string" where
  "hyphensToSpaces s = map (\<lambda>c. if c = CHR ''-'' then CHR '' '' else c) s"

section \<open>Drug records and sections\<close>

record Label =
  genericName :: string
  labelerName :: string
  productType :: string
  effectiveTime :: string
  label_title :: string
  indicationsAndUsage :: "string option"
  dosageAndAdministration :: "string option"
  dosageFormsAndStrengths :: "string option"
  warningsAndPrecautions :: "string option"
  adverseReactions :: "string option"
  clinicalPharmacology :: "string option"
  clinicalStudies :: "string option"
  howSupplied :: "string option"
  useInSpecificPopulations :: "string option"
  description :: "string option"
  nonclinicalToxicology :: "string option"
  instructionsForUse :: "string option"

record DrugLabel =
  drugName :: string
  setId :: string
  slug :: string
  labeler :: string
  label :: Label

record DrugSection =
  section_id :: string
  title :: string
  content :: string
  enhancedContent :: jsval
  order_no :: nat

text \<open>
  \<^verbatim>\<open>drug.label[key]\<close>: the property of the label named by a key string. A key that
  names no prose field of the label reads as absent.
\<close>

definition label_field :: "Label \<Rightarrow> string \<Rightarrow> string option" where
  "label_field l key =
     (if key = ''indicationsAndUsage'' then indicationsAndUsage l
      else if key = ''dosageAndAdministration'' then dosageAndAdministration l
      else if key = ''dosageFormsAndStrengths'' then dosageFormsAndStrengths l
      else if key = ''warningsAndPrecautions'' then warningsAndPrecautions l
      else if key = ''adverseReactions'' then adverseReactions l
      else if key = ''clinicalPharmacology'' then clinicalPharmacology l
      else if key = ''clinicalStudies'' then clinicalStudies l
      else if key = ''howSupplied'' then howSupplied l
      else if key = ''useInSpecificPopulations'' then useInSpecificPopulations l
      else if key = ''description'' then description l
      else if key = ''nonclinicalToxicology'' then nonclinicalToxicology l
      else if key = ''instructionsForUse'' then instructionsForUse l
      else None)"

subsection \<open>The Basic Content Assembler: \<^verbatim>\<open>buildDrugSections\<close>\<close>

definition sectionMappings :: "(string \<times> string) list" where
  "sectionMappings =
     [(''indicationsAndUsage'', ''Indications and Usage''),
      (''dosageAndAdministration'', ''Dosage and Administration''),
      (''dosageFormsAndStrengths'', ''Dosage Forms and Strengths''),
      (''warningsAndPrecautions'', ''Warnings and Precautions''),
      (''adverseReactions'', ''Adverse Reactions''),
      (''clinicalPharmacology'', ''Clinical Pharmacology''),
      (''clinicalStudies'', ''Clinical Studies''),
      (''howSupplied'', ''How Supplied/Storage and Handling''),
      (''useInSpecificPopulations'', ''Use in Specific Populations''),
      (''description'', ''Description''),
      (''nonclinicalToxicology'', ''Nonclinical Toxicology''),
      (''instructionsForUse'', ''Instructions for Use'')]"

text \<open>
  The body of the \<^verbatim>\<open>forEach\<close>: the state is the \<^verbatim>\<open>sections\<close> array and the
  \<^verbatim>\<open>order\<close> counter. A section is pushed when the field is a non-empty string; the new
  section has no \<^verbatim>\<open>enhancedContent\<close> property.
\<close>

definition pushSection ::
  "DrugLabel \<Rightarrow> string \<times> string \<Rightarrow> DrugSection list \<times> nat \<Rightarrow> DrugSection list \<times> nat" where
  "pushSection drug kt acc =
     (case kt of (key, ttl) \<Rightarrow>
      (case acc of (sections, order) \<Rightarrow>
        (case label_field (label drug) key of
           Some c \<Rightarrow>
             if c \<noteq> []
             then (sections @
                     [\<lparr>section_id = setId drug @ ''-'' @ key, title = ttl, content = c,
                       enhancedContent = Undefined, order_no = order\<rparr>],
                   order + 1)
             else (sections, order)
         | None \<Rightarrow> (sections, order))))"

definition buildDrugSections :: "DrugLabel \<Rightarrow> DrugSection list" where
  "buildDrugSections drug = fst (foldl (\<lambda>acc kt. pushSection drug kt acc) ([], 1) sectionMappings)"

text \<open>A field is populated when it is present and not the empty string.\<close>

definition populated :: "DrugLabel \<Rightarrow> string \<Rightarrow> bool" where
  "populated drug key = (case label_field (label drug) key of Some c \<Rightarrow> c \<noteq> [] | None \<Rightarrow> False)"

record EnhancedDrugContent =
  content_id :: string
  content_drugName :: string
  content_genericName :: string
  content_slug :: string
  seoTitle :: jsval
  metaDescription :: jsval
  enhancedSummary :: string
  sections :: "DrugSection list"
  lastUpdated :: nat

subsection \<open>Record lookup: \<^verbatim>\<open>getDrugByNames\<close>\<close>

definition matchesBoth :: "string \<Rightarrow> string \<Rightarrow> DrugLabel \<Rightarrow> bool" where
  "matchesBoth normalizedDrugName normalizedGenericName drug =
     (hyphensToSpaces (toLowerCase (drugName drug)) = normalizedDrugName \<and>
      toLowerCase (genericName (label drug)) = normalizedGenericName)"

definition matchesEither :: "string \<Rightarrow> DrugLabel \<Rightarrow> bool" where
  "matchesEither normalizedDrugName drug =
     (hyphensToSpaces (toLowerCase (drugName drug)) = normalizedDrugName \<or>
      hyphensToSpaces (toLowerCase (genericName (label drug))) = normalizedDrugName)"

text \<open>
  The optional argument is \<open>None\<close> when the caller passes none. The test
  \<^verbatim>\<open>if (genericName)\<close> is a truthiness test: the empty string takes the \<^verbatim>\<open>else\<close> branch.
  \<^verbatim>\<open>Array.find(...) || null\<close> is \<open>find\<close>, with \<open>None\<close> for \<^verbatim>\<open>null\<close>.
\<close>

definition getDrugByNames :: "DrugLabel list \<Rightarrow> string \<Rightarrow> string option \<Rightarrow> DrugLabel option" where
  "getDrugByNames loaded dn gn =
     (let normalizedDrugName = hyphensToSpaces (toLowerCase dn) in
      case gn of
        Some g \<Rightarrow>
          if g \<noteq> []
          then (let normalizedGenericName = toLowerCase g
                in find (matchesBoth normalizedDrugName normalizedGenericName) loaded)
          else find (matchesEither normalizedDrugName) loaded
      | None \<Rightarrow> find (matchesEither normalizedDrugName) loaded)"

section \<open>The world outside the services\<close>

subsection \<open>The Content Cache\<close>

datatype cval = VContent EnhancedDrugContent | VSections "DrugSection list" | VJs jsval

datatype cache_call = CGet string | CSet string cval nat

datatype provider_request = ChatCompletion | StructuredResponse "string list"

text \<open>
  The state that the services read and change: the cache entries (value and time-to-live
  in seconds), the calls made to the cache in order, the requests sent to the model
  provider in order (a structured request carries the \<^verbatim>\<open>required\<close> keys of its schema;
  prompt texts are not modelled), and the delays slept in milliseconds, in order.
  Logger calls return nothing and change nothing the program reads; they are left out.
\<close>

record world =
  cache :: "string \<rightharpoonup> cval \<times> nat"
  cache_log :: "cache_call list"
  requests :: "provider_request list"
  sleeps :: "nat list"

text \<open>
  Modelled from the spec: \<^verbatim>\<open>CacheService\<close> (\<^verbatim>\<open>cache.service.ts\<close> is not among the sources).
  The spec gives \<^verbatim>\<open>get(key) -> value or absent\<close> and \<^verbatim>\<open>set(key, value, ttlSeconds) -> void\<close>,
  neither of which fails. Expiry needs a clock and is not modelled: the entries of a
  world are the live ones.
\<close>

definition cache_get :: "string \<Rightarrow> world \<Rightarrow> cval option \<times> world" where
  "cache_get key w = (map_option fst (cache w key), w\<lparr>cache_log := cache_log w @ [CGet key]\<rparr>)"

definition cache_set :: "string \<Rightarrow> cval \<Rightarrow> nat \<Rightarrow> world \<Rightarrow> world" where
  "cache_set key v ttl w =
     w\<lparr>cache := (cache w)(key \<mapsto> (v, ttl)), cache_log := cache_log w @ [CSet key v ttl]\<rparr>"

text \<open>
  \<^verbatim>\<open>get<T>\<close> names the type the caller expects. Each namespace is written by one
  \<^verbatim>\<open>set\<close> only, with a value of that type; an entry of another shape is read as absent.
\<close>

definition as_content :: "cval option \<Rightarrow> EnhancedDrugContent option" where
  "as_content c = (case c of Some (VContent x) \<Rightarrow> Some x | _ \<Rightarrow> None)"

definition as_sections :: "cval option \<Rightarrow> DrugSection list option" where
  "as_sections c = (case c of Some (VSections x) \<Rightarrow> Some x | _ \<Rightarrow> None)"

definition as_js :: "cval option \<Rightarrow> jsval" where
  "as_js c = (case c of Some (VJs x) \<Rightarrow> x | _ \<Rightarrow> Undefined)"

definition as_string :: "cval option \<Rightarrow> string" where
  "as_string c = (case c of Some (VJs (Str x)) \<Rightarrow> x | _ \<Rightarrow> [])"

subsection \<open>The model provider and the built-ins\<close>

text \<open>
  A request to the provider is rejected with an error or answered with a completion,
  whose text may be missing. The provider is any function of the number of requests
  sent before. \<^verbatim>\<open>JSON.parse\<close> (\<open>None\<close>: a \<^verbatim>\<open>SyntaxError\<close>), \<^verbatim>\<open>JSON.stringify(v, null, 2)\<close>,
  the clock behind \<^verbatim>\<open>new Date()\<close> and the date's rendering are parameters, as are the
  records loaded at start-up and whether an API key was configured (\<^verbatim>\<open>this.openai\<close> is set).
\<close>

datatype provider_reply = Rejected js_error | Replied "string option"

record env =
  configured :: bool
  provider :: "nat \<Rightarrow> provider_reply"
  JSON_parse :: "string \<Rightarrow> jsval option"
  JSON_stringify :: "jsval \<Rightarrow> string"
  now :: nat
  toISOString :: "nat \<Rightarrow> string"
  drugs :: "DrugLabel list"

definition SyntaxError :: js_error where
  "SyntaxError = Error ''Unexpected token in JSON''"

definition TypeError :: js_error where
  "TypeError = Error ''Cannot read properties of undefined''"

text \<open>
  \<^verbatim>\<open>v[key]\<close> on a value of unknown shape: a \<^verbatim>\<open>TypeError\<close> on \<^verbatim>\<open>null\<close> and
  \<^verbatim>\<open>undefined\<close>, the property of an object, and \<^verbatim>\<open>undefined\<close> for the keys used here on
  any other value.
\<close>

definition js_index :: "jsval \<Rightarrow> string \<Rightarrow> js_error + jsval" where
  "js_index v key =
     (case v of
        Undefined \<Rightarrow> Inl TypeError
      | Null \<Rightarrow> Inl TypeError
      | Obj kvs \<Rightarrow> (case map_of kvs key of Some x \<Rightarrow> Inr x | None \<Rightarrow> Inr Undefined)
      | _ \<Rightarrow> Inr Undefined)"

definition is_space :: "char \<Rightarrow> bool" where
  "is_space c = (let n = (of_char c :: nat) in (9 \<le> n \<and> n \<le> 13) \<or> n = 32)"

definition trim :: "string \<Rightarrow> string" where
  "trim s = rev (dropWhile is_space (rev (dropWhile is_space s)))"

section \<open>The Model Gateway: \<^verbatim>\<open>OpenAIService\<close>\<close>

type_synonym 'a action = "world \<Rightarrow> (js_error + 'a) \<times> world"

definition maxRetries :: nat where
  "maxRetries = 3"

definition baseDelay :: nat where
  "baseDelay = 1000"

definition sleep :: "nat \<Rightarrow> world \<Rightarrow> world" where
  "sleep ms w = w\<lparr>sleeps := sleeps w @ [ms]\<rparr>"

text \<open>\<^verbatim>\<open>error.status === 429 || error.code === 'rate_limit_exceeded'\<close>\<close>

definition rate_limited :: "js_error \<Rightarrow> bool" where
  "rate_limited error = (status error = Some 429 \<or> code error = Some ''rate_limit_exceeded'')"

text \<open>
  \<^verbatim>\<open>callOpenAIWithRetry(operation, drug, attempt = 1)\<close>. The record is used for log
  messages only. The method is private and every call site starts at attempt 1, so the
  attempt number is a natural number. The deprecated \<^verbatim>\<open>enhanceSection\<close>, which no entry
  point of the orchestrator reaches, is not modelled.
\<close>

function callOpenAIWithRetry :: "'a action \<Rightarrow> DrugLabel \<Rightarrow> nat \<Rightarrow> world \<Rightarrow> (js_error + 'a) \<times> world" where
  "callOpenAIWithRetry operation drug attempt w =
     (case operation w of
        (Inr v, w1) \<Rightarrow> (Inr v, w1)
      | (Inl error, w1) \<Rightarrow>
          if attempt \<ge> maxRetries then (Inl error, w1)
          else (let w2 = (if rate_limited error
                          then sleep (baseDelay * 2 ^ (attempt - 1)) w1
                          else sleep 500 w1)
                in callOpenAIWithRetry operation drug (attempt + 1) w2))"
  by pat_completeness auto
termination
  by (relation "measure (\<lambda>(operation, drug, attempt, w). maxRetries - attempt)") auto

subsection \<open>Requests to the provider\<close>

text \<open>
  \<^verbatim>\<open>await this.openai.chat.completions.create(...)\<close> followed by
  \<^verbatim>\<open>completion.choices[0]?.message?.content\<close>, and
  \<^verbatim>\<open>await this.openai.responses.create(...)\<close> followed by \<^verbatim>\<open>response.output_text\<close>.
\<close>

definition send :: "env \<Rightarrow> provider_request \<Rightarrow> world \<Rightarrow> (js_error + string option) \<times> world" where
  "send e req w =
     (case provider e (length (requests w)) of
        Rejected error \<Rightarrow> (Inl error, w\<lparr>requests := requests w @ [req]\<rparr>)
      | Replied text \<Rightarrow> (Inr text, w\<lparr>requests := requests w @ [req]\<rparr>))"

subsection \<open>Fallback values\<close>

definition getFallbackSEOMetadata :: "DrugLabel \<Rightarrow> jsval" where
  "getFallbackSEOMetadata drug =
     Obj [(''title'',
           Str (drugName drug @ '' ('' @ genericName (label drug) @ '') - Prescription Info'')),
          (''description'',
           Str (''Complete prescribing information for '' @ drugName drug @ '' ('' @
                genericName (label drug) @ '') by '' @ labeler drug @
                ''. Dosage, side effects, warnings & more.''))]"

definition getFallbackSummary :: "DrugLabel \<Rightarrow> string" where
  "getFallbackSummary drug =
     drugName drug @ '' is a prescription medication containing the active ingredient '' @
     genericName (label drug) @ '', manufactured by '' @ labeler drug @ ''.''"

subsection \<open>\<^verbatim>\<open>generateSEOMetadata\<close>\<close>

text \<open>
  The operation handed to the retry wrapper. A missing or empty completion text throws;
  the inner \<^verbatim>\<open>try\<close> covers \<^verbatim>\<open>JSON.parse\<close> and the cache write, and its handler returns
  the fallback.
\<close>

definition seoOperation :: "env \<Rightarrow> DrugLabel \<Rightarrow> string \<Rightarrow> jsval action" where
  "seoOperation e drug cacheKey w =
     (case send e ChatCompletion w of
        (Inl error, w1) \<Rightarrow> (Inl error, w1)
      | (Inr response, w1) \<Rightarrow>
          (case response of
             None \<Rightarrow> (Inl (Error ''No response from OpenAI''), w1)
           | Some r \<Rightarrow>
               if r = [] then (Inl (Error ''No response from OpenAI''), w1)
               else (case JSON_parse e r of
                       Some result \<Rightarrow> (Inr result, cache_set cacheKey (VJs result) 86400 w1)
                     | None \<Rightarrow> (Inr (getFallbackSEOMetadata drug), w1))))"

definition generateSEOMetadata :: "env \<Rightarrow> DrugLabel \<Rightarrow> jsval action" where
  "generateSEOMetadata e drug w =
     (if \<not> configured e then (Inr (getFallbackSEOMetadata drug), w)
      else (let cacheKey = ''seo_metadata:'' @ setId drug in
            case cache_get cacheKey w of
              (cached, w0) \<Rightarrow>
                if truthy (as_js cached) then (Inr (as_js cached), w0)
                else callOpenAIWithRetry (seoOperation e drug cacheKey) drug 1 w0))"

subsection \<open>\<^verbatim>\<open>generateDrugSummary\<close>\<close>

definition summaryOperation :: "env \<Rightarrow> DrugLabel \<Rightarrow> string \<Rightarrow> string action" where
  "summaryOperation e drug cacheKey w =
     (case send e ChatCompletion w of
        (Inl error, w1) \<Rightarrow> (Inl error, w1)
      | (Inr response, w1) \<Rightarrow>
          (let summary = (case response of
                            None \<Rightarrow> getFallbackSummary drug
                          | Some r \<Rightarrow> if trim r \<noteq> [] then trim r else getFallbackSummary drug)
           in (Inr summary, cache_set cacheKey (VJs (Str summary)) 86400 w1)))"

definition generateDrugSummary :: "env \<Rightarrow> DrugLabel \<Rightarrow> string action" where
  "generateDrugSummary e drug w =
     (if \<not> configured e then (Inr (getFallbackSummary drug), w)
      else (let cacheKey = ''drug_summary:'' @ setId drug in
            case cache_get cacheKey w of
              (cached, w0) \<Rightarrow>
                if as_string cached \<noteq> [] then (Inr (as_string cached), w0)
                else callOpenAIWithRetry (summaryOperation e drug cacheKey) drug 1 w0))"

subsection \<open>\<^verbatim>\<open>enhanceAllSections\<close>\<close>

definition sectionsToEnhance :: "DrugLabel \<Rightarrow> (string \<times> string option) list" where
  "sectionsToEnhance drug =
     [(''indicationsAndUsage'', indicationsAndUsage (label drug)),
      (''dosageAndAdministration'', dosageAndAdministration (label drug)),
      (''dosageFormsAndStrengths'', dosageFormsAndStrengths (label drug)),
      (''warningsAndPrecautions'', warningsAndPrecautions (label drug)),
      (''adverseReactions'', adverseReactions (label drug)),
      (''clinicalPharmacology'', clinicalPharmacology (label drug)),
      (''clinicalStudies'', clinicalStudies (label drug)),
      (''howSupplied'', howSupplied (label drug)),
      (''useInSpecificPopulations'', useInSpecificPopulations (label drug)),
      (''description'', description (label drug)),
      (''nonclinicalToxicology'', nonclinicalToxicology (label drug)),
      (''instructionsForUse'', instructionsForUse (label drug))]"

text \<open>
  \<^verbatim>\<open>Object.keys(availableSections)\<close>: the keys whose content passes
  \<^verbatim>\<open>content && content.trim()\<close>, in the order of \<open>sectionsToEnhance\<close>. The texts stored
  under the keys only go into the prompt.
\<close>

definition availableSections :: "DrugLabel \<Rightarrow> string list" where
  "availableSections drug =
     map fst (filter (\<lambda>(key, content). case content of Some c \<Rightarrow> c \<noteq> [] \<and> trim c \<noteq> [] | None \<Rightarrow> False)
                     (sectionsToEnhance drug))"

text \<open>
  The operation handed to the retry wrapper: \<^verbatim>\<open>JSON.parse(response.output_text)\<close> is
  not inside a \<^verbatim>\<open>try\<close>, so a \<^verbatim>\<open>SyntaxError\<close> leaves the operation.
\<close>

definition sectionsOperation :: "env \<Rightarrow> DrugLabel \<Rightarrow> string \<Rightarrow> jsval action" where
  "sectionsOperation e drug cacheKey w =
     (case send e (StructuredResponse (availableSections drug)) w of
        (Inl error, w1) \<Rightarrow> (Inl error, w1)
      | (Inr output_text, w1) \<Rightarrow>
          (case output_text of
             None \<Rightarrow> (Inl SyntaxError, w1)
           | Some t \<Rightarrow>
               (case JSON_parse e t of
                  None \<Rightarrow> (Inl SyntaxError, w1)
                | Some result \<Rightarrow> (Inr result, cache_set cacheKey (VJs result) 86400 w1))))"

definition enhanceAllSections :: "env \<Rightarrow> DrugLabel \<Rightarrow> jsval action" where
  "enhanceAllSections e drug w =
     (if \<not> configured e then (Inr (Obj []), w)
      else (let cacheKey = ''enhanced_sections:'' @ setId drug in
            case cache_get cacheKey w of
              (cached, w0) \<Rightarrow>
                if truthy (as_js cached) then (Inr (as_js cached), w0)
                else if availableSections drug = [] then (Inr (Obj []), w0)
                else callOpenAIWithRetry (sectionsOperation e drug cacheKey) drug 1 w0))"

section \<open>The Enhancement Orchestrator: \<^verbatim>\<open>DrugService\<close>\<close>

text \<open>
  \<^verbatim>\<open>createSlug\<close>: lower case, drop what is not a word character, white space or a
  hyphen, turn each run of white space into one hyphen, trim.
\<close>

definition is_word :: "char \<Rightarrow> bool" where
  "is_word c =
     (let n = (of_char c :: nat)
      in (48 \<le> n \<and> n \<le> 57) \<or> (65 \<le> n \<and> n \<le> 90) \<or> (97 \<le> n \<and> n \<le> 122) \<or> n = 95)"

fun dashSpaces :: "bool \<Rightarrow> string \<Rightarrow> string" where
  "dashSpaces in_run [] = []"
| "dashSpaces in_run (c # cs) =
     (if is_space c
      then (if in_run then dashSpaces True cs else CHR ''-'' # dashSpaces True cs)
      else c # dashSpaces False cs)"

definition createSlug :: "string \<Rightarrow> string" where
  "createSlug text =
     trim (dashSpaces False
             (filter (\<lambda>c. is_word c \<or> is_space c \<or> c = CHR ''-'') (toLowerCase text)))"

definition titleMappings :: "(string \<times> string) list" where
  "titleMappings =
     [(''Indications and Usage'', ''indicationsAndUsage''),
      (''Dosage and Administration'', ''dosageAndAdministration''),
      (''Dosage Forms and Strengths'', ''dosageFormsAndStrengths''),
      (''Warnings and Precautions'', ''warningsAndPrecautions''),
      (''Adverse Reactions'', ''adverseReactions''),
      (''Clinical Pharmacology'', ''clinicalPharmacology''),
      (''Clinical Studies'', ''clinicalStudies''),
      (''How Supplied/Storage and Handling'', ''howSupplied''),
      (''Use in Specific Populations'', ''useInSpecificPopulations''),
      (''Description'', ''description''),
      (''Nonclinical Toxicology'', ''nonclinicalToxicology''),
      (''Instructions for Use'', ''instructionsForUse'')]"

definition getSectionKeyFromTitle :: "string \<Rightarrow> string" where
  "getSectionKeyFromTitle ttl = (case map_of titleMappings ttl of Some key \<Rightarrow> key | None \<Rightarrow> [])"

text \<open>
  The callback of \<^verbatim>\<open>sections.map\<close> in \<^verbatim>\<open>enhanceAllSectionsAtOnce\<close>, and the map itself,
  which stops at the first callback that throws.
\<close>

definition enhanceOne :: "jsval \<Rightarrow> DrugSection \<Rightarrow> js_error + DrugSection" where
  "enhanceOne enhancedData section =
     (let sectionKey = getSectionKeyFromTitle (title section) in
      case js_index enhancedData sectionKey of
        Inl error \<Rightarrow> Inl error
      | Inr v \<Rightarrow> Inr (section\<lparr>enhancedContent := (if truthy v then v else Undefined)\<rparr>))"

fun mapSections :: "jsval \<Rightarrow> DrugSection list \<Rightarrow> js_error + DrugSection list" where
  "mapSections enhancedData [] = Inr []"
| "mapSections enhancedData (section # rest) =
     (case enhanceOne enhancedData section of
        Inl error \<Rightarrow> Inl error
      | Inr x \<Rightarrow> (case mapSections enhancedData rest of
                    Inl error \<Rightarrow> Inl error
                  | Inr xs \<Rightarrow> Inr (x # xs)))"

text \<open>
  \<^verbatim>\<open>enhanceAllSectionsAtOnce\<close> does not throw: its handler returns the sections it was
  given.
\<close>

definition enhanceAllSectionsAtOnce ::
  "env \<Rightarrow> DrugSection list \<Rightarrow> DrugLabel \<Rightarrow> world \<Rightarrow> DrugSection list \<times> world" where
  "enhanceAllSectionsAtOnce e secs drug w =
     (let cacheKey = ''enhanced_all_sections:'' @ setId drug in
      case cache_get cacheKey w of
        (cached, w0) \<Rightarrow>
          (case as_sections cached of
             Some hit \<Rightarrow> (hit, w0)
           | None \<Rightarrow>
               (case enhanceAllSections e drug w0 of
                  (Inl error, w1) \<Rightarrow> (secs, w1)
                | (Inr enhancedData, w1) \<Rightarrow>
                    (case mapSections enhancedData secs of
                       Inl error \<Rightarrow> (secs, w1)
                     | Inr enhancedSections \<Rightarrow>
                         (enhancedSections,
                          cache_set cacheKey (VSections enhancedSections) 3600 w1)))))"

text \<open>The body of the \<^verbatim>\<open>try\<close> block of \<^verbatim>\<open>getEnhancedContent\<close>.\<close>

definition generateEnhancedContent :: "env \<Rightarrow> DrugLabel \<Rightarrow> string \<Rightarrow> EnhancedDrugContent action" where
  "generateEnhancedContent e drug cacheKey w =
     (case generateSEOMetadata e drug w of
        (Inl error, w1) \<Rightarrow> (Inl error, w1)
      | (Inr seoMetadata, w1) \<Rightarrow>
          (case generateDrugSummary e drug w1 of
             (Inl error, w2) \<Rightarrow> (Inl error, w2)
           | (Inr summary, w2) \<Rightarrow>
               (case enhanceAllSectionsAtOnce e (buildDrugSections drug) drug w2 of
                  (enhancedSections, w3) \<Rightarrow>
                    (case js_index seoMetadata ''title'' of
                       Inl error \<Rightarrow> (Inl error, w3)
                     | Inr seo_title \<Rightarrow>
                         (case js_index seoMetadata ''description'' of
                            Inl error \<Rightarrow> (Inl error, w3)
                          | Inr seo_description \<Rightarrow>
                              (let enhanced =
                                 \<lparr>content_id = setId drug,
                                  content_drugName = drugName drug,
                                  content_genericName = genericName (label drug),
                                  content_slug = createSlug (drugName drug),
                                  seoTitle = seo_title,
                                  metaDescription = seo_description,
                                  enhancedSummary = summary,
                                  sections = enhancedSections,
                                  lastUpdated = now e\<rparr>
                               in (Inr enhanced,
                                   cache_set cacheKey (VContent enhanced) 3600 w3)))))))"

text \<open>The object returned by the \<^verbatim>\<open>catch\<close> block of \<^verbatim>\<open>getEnhancedContent\<close>.\<close>

definition fallbackContent :: "env \<Rightarrow> DrugLabel \<Rightarrow> EnhancedDrugContent" where
  "fallbackContent e drug =
     \<lparr>content_id = setId drug,
      content_drugName = drugName drug,
      content_genericName = genericName (label drug),
      content_slug = createSlug (drugName drug),
      seoTitle = Str (drugName drug @ '' ('' @ genericName (label drug) @ '') - Drug Information''),
      metaDescription =
        Str (''Complete prescribing information for '' @ drugName drug @ '' ('' @
             genericName (label drug) @ ''). Indications, dosage, warnings, and more.''),
      enhancedSummary =
        drugName drug @ '' is a prescription medication containing '' @
        genericName (label drug) @ ''.'',
      sections = buildDrugSections drug,
      lastUpdated = now e\<rparr>"

definition getEnhancedContent :: "env \<Rightarrow> DrugLabel \<Rightarrow> world \<Rightarrow> EnhancedDrugContent \<times> world" where
  "getEnhancedContent e drug w =
     (let cacheKey = ''enhanced_content:'' @ setId drug in
      case cache_get cacheKey w of
        (cached, w0) \<Rightarrow>
          (case as_content cached of
             Some hit \<Rightarrow> (hit, w0)
           | None \<Rightarrow>
               (case generateEnhancedContent e drug cacheKey w0 of
                  (Inr enhanced, w1) \<Rightarrow> (enhanced, w1)
                | (Inl error, w1) \<Rightarrow> (fallbackContent e drug, w1))))"

subsection \<open>\<^verbatim>\<open>searchDrugs\<close>\<close>

text \<open>\<^verbatim>\<open>s.includes(q)\<close>\<close>

fun includes_str :: "string \<Rightarrow> string \<Rightarrow> bool" where
  "includes_str [] q = (q = [])"
| "includes_str (c # cs) q = (take (length q) (c # cs) = q \<or> includes_str cs q)"

text \<open>Page and limit are non-negative whole numbers; \<^verbatim>\<open>x || d\<close> replaces 0 as well as an absent value.\<close>

record DrugSearchDto =
  query :: "string option"
  labeler_filter :: "string option"
  page :: "nat option"
  limit :: "nat option"

definition orDefault :: "nat option \<Rightarrow> nat \<Rightarrow> nat" where
  "orDefault n d = (case n of Some x \<Rightarrow> if x = 0 then d else x | None \<Rightarrow> d)"

definition matchesQuery :: "string \<Rightarrow> DrugLabel \<Rightarrow> bool" where
  "matchesQuery q drug =
     (includes_str (toLowerCase (drugName drug)) q \<or>
      includes_str (toLowerCase (genericName (label drug))) q \<or>
      includes_str (toLowerCase (labeler drug)) q \<or>
      (case indicationsAndUsage (label drug) of
         Some c \<Rightarrow> includes_str (toLowerCase c) q
       | None \<Rightarrow> False))"

definition searchItem :: "DrugLabel \<Rightarrow> jsval" where
  "searchItem drug =
     Obj [(''drugName'', Str (drugName drug)),
          (''genericName'', Str (genericName (label drug))),
          (''labeler'', Str (labeler drug)),
          (''url'', Str (''/drugs/'' @ createSlug (drugName drug) @ ''-'' @
                         createSlug (genericName (label drug))))]"

definition searchDrugs :: "DrugLabel list \<Rightarrow> DrugSearchDto \<Rightarrow> jsval" where
  "searchDrugs loaded searchDto =
     (let byQuery = (case query searchDto of
                       Some q \<Rightarrow>
                         if q \<noteq> [] then filter (matchesQuery (toLowerCase q)) loaded else loaded
                     | None \<Rightarrow> loaded);
          filteredDrugs = (case labeler_filter searchDto of
                             Some l \<Rightarrow>
                               if l \<noteq> []
                               then filter (\<lambda>drug. includes_str (toLowerCase (labeler drug))
                                                                (toLowerCase l))
                                           byQuery
                               else byQuery
                           | None \<Rightarrow> byQuery);
          pg = orDefault (page searchDto) 1;
          lim = orDefault (limit searchDto) 20;
          startIndex = (pg - 1) * lim;
          endIndex = startIndex + lim;
          paginatedDrugs = take lim (drop startIndex filteredDrugs)
      in Obj [(''drugs'', Arr (map searchItem paginatedDrugs)),
              (''pagination'',
               Obj [(''page'', Num (int pg)),
                    (''limit'', Num (int lim)),
                    (''total'', Num (int (length filteredDrugs))),
                    (''totalPages'', Num (int ((length filteredDrugs + lim - 1) div lim))),
                    (''hasNext'', Bool (endIndex < length filteredDrugs)),
                    (''hasPrev'', Bool (pg > 1))])])"

section \<open>The Tool Protocol Adapter: \<^verbatim>\<open>McpService\<close>\<close>

text \<open>
  The correlation id of a request is a string, a number or \<^verbatim>\<open>null\<close>, or is omitted
  (\<open>None\<close>); the id of a response is never omitted. The tool arguments are modelled at
  the types the tools cast them to.
\<close>

datatype rpc_id = IdNull | IdNum int | IdStr string

record ToolArguments =
  arg_drugName :: string
  arg_genericName :: "string option"
  arg_search :: DrugSearchDto

record McpToolCall =
  name :: string
  arguments :: ToolArguments

record McpRequest =
  rpc_method :: string
  params :: "McpToolCall option"
  request_id :: "rpc_id option"

text \<open>
  A tool result: the \<^verbatim>\<open>text\<close> of each item of \<^verbatim>\<open>content\<close> (every item has type
  \<^verbatim>\<open>'text'\<close>) and the optional \<^verbatim>\<open>isError\<close> flag.
\<close>

record McpToolResult =
  texts :: "string list"
  isError :: "bool option"

datatype McpResult = Descriptor jsval | ToolResult McpToolResult

record McpError =
  error_code :: int
  error_message :: string

record McpResponse =
  jsonrpc :: string
  response_id :: rpc_id
  result :: "McpResult option"
  error :: "McpError option"

text \<open>\<^verbatim>\<open>request.id ?? null\<close> and \<^verbatim>\<open>request.id || null\<close>\<close>

definition nullish :: "rpc_id option \<Rightarrow> rpc_id" where
  "nullish i = (case i of None \<Rightarrow> IdNull | Some x \<Rightarrow> x)"

definition orNull :: "rpc_id option \<Rightarrow> rpc_id" where
  "orNull i =
     (case i of
        None \<Rightarrow> IdNull
      | Some IdNull \<Rightarrow> IdNull
      | Some (IdNum n) \<Rightarrow> if n = 0 then IdNull else IdNum n
      | Some (IdStr x) \<Rightarrow> if x = [] then IdNull else IdStr x)"

definition initialize :: "rpc_id \<Rightarrow> McpResponse" where
  "initialize i =
     \<lparr>jsonrpc = ''2.0'', response_id = i,
      result = Some (Descriptor
        (Obj [(''protocolVersion'', Str ''2024-11-05''),
              (''capabilities'', Obj [(''tools'', Obj [])]),
              (''serverInfo'', Obj [(''name'', Str ''rxview-drug-server''),
                                    (''version'', Str ''1.0.0'')])])),
      error = None\<rparr>"

definition nameSchema :: jsval where
  "nameSchema =
     Obj [(''type'', Str ''object''),
          (''properties'',
           Obj [(''drugName'', Obj [(''type'', Str ''string''),
                                    (''description'', Str ''The brand name of the drug'')]),
                (''genericName'', Obj [(''type'', Str ''string''),
                                       (''description'', Str ''The generic name of the drug (optional)'')])]),
          (''required'', Arr [Str ''drugName''])]"

definition searchSchema :: jsval where
  "searchSchema =
     Obj [(''type'', Str ''object''),
          (''properties'',
           Obj [(''query'', Obj [(''type'', Str ''string''),
                                 (''description'', Str ''Search query to match against drug names, generic names, or labelers'')]),
                (''labeler'', Obj [(''type'', Str ''string''),
                                   (''description'', Str ''Filter by specific drug manufacturer/labeler'')]),
                (''page'', Obj [(''type'', Str ''number''),
                                (''description'', Str ''Page number for pagination (default: 1)''),
                                (''default'', Num 1)]),
                (''limit'', Obj [(''type'', Str ''number''),
                                 (''description'', Str ''Number of results per page (default: 20)''),
                                 (''default'', Num 20)])])]"

definition tools :: "jsval list" where
  "tools =
     [Obj [(''name'', Str ''get_drug_by_name''),
           (''description'', Str ''Get detailed drug information by drug name and optional generic name''),
           (''inputSchema'', nameSchema)],
      Obj [(''name'', Str ''search_drugs''),
           (''description'', Str ''Search for drugs by name, generic name, or labeler''),
           (''inputSchema'', searchSchema)],
      Obj [(''name'', Str ''get_enhanced_sections''),
           (''description'', Str ''Get AI-enhanced content sections for a specific drug''),
           (''inputSchema'', nameSchema)]]"

definition listTools :: "rpc_id \<Rightarrow> McpResponse" where
  "listTools i =
     \<lparr>jsonrpc = ''2.0'', response_id = i,
      result = Some (Descriptor (Obj [(''tools'', Arr tools)])),
      error = None\<rparr>"

text \<open>The objects handed to \<^verbatim>\<open>JSON.stringify\<close>, which leaves out a property that is \<^verbatim>\<open>undefined\<close>.\<close>

definition sectionObject :: "DrugSection \<Rightarrow> jsval" where
  "sectionObject section =
     Obj [(''id'', Str (section_id section)),
          (''title'', Str (title section)),
          (''content'', Str (content section)),
          (''order'', Num (int (order_no section))),
          (''enhancedContent'', enhancedContent section)]"

definition contentObject :: "env \<Rightarrow> EnhancedDrugContent \<Rightarrow> jsval" where
  "contentObject e c =
     Obj [(''id'', Str (content_id c)),
          (''drugName'', Str (content_drugName c)),
          (''genericName'', Str (content_genericName c)),
          (''slug'', Str (content_slug c)),
          (''seoTitle'', seoTitle c),
          (''metaDescription'', metaDescription c),
          (''enhancedSummary'', Str (enhancedSummary c)),
          (''sections'', Arr (map sectionObject (sections c))),
          (''lastUpdated'', Str (toISOString e (lastUpdated c)))]"

definition searchTerm :: "ToolArguments \<Rightarrow> string" where
  "searchTerm args =
     (case arg_genericName args of
        Some g \<Rightarrow> if g \<noteq> [] then arg_drugName args @ '' ('' @ g @ '')'' else arg_drugName args
      | None \<Rightarrow> arg_drugName args)"

definition notFound :: "ToolArguments \<Rightarrow> McpToolResult" where
  "notFound args = \<lparr>texts = [''Drug not found: '' @ searchTerm args], isError = Some True\<rparr>"

definition getDrugByName :: "env \<Rightarrow> ToolArguments \<Rightarrow> world \<Rightarrow> McpToolResult \<times> world" where
  "getDrugByName e args w =
     (case getDrugByNames (drugs e) (arg_drugName args) (arg_genericName args) of
        None \<Rightarrow> (notFound args, w)
      | Some drug \<Rightarrow>
          (case getEnhancedContent e drug w of
             (enhanced, w1) \<Rightarrow>
               (\<lparr>texts = [JSON_stringify e (contentObject e enhanced)], isError = None\<rparr>,
                w1)))"

definition searchDrugsTool :: "env \<Rightarrow> ToolArguments \<Rightarrow> McpToolResult" where
  "searchDrugsTool e args =
     \<lparr>texts = [JSON_stringify e (searchDrugs (drugs e) (arg_search args))], isError = None\<rparr>"

text \<open>The rendering of one section by \<^verbatim>\<open>get_enhanced_sections\<close>, and the tool.\<close>

definition renderSection :: "DrugSection \<Rightarrow> jsval" where
  "renderSection section =
     Obj [(''title'', Str (title section)),
          (''originalContent'', Str (content section)),
          (''enhancedContent'', enhancedContent section)]"

definition enhancedSectionsObject :: "EnhancedDrugContent \<Rightarrow> jsval" where
  "enhancedSectionsObject c =
     (let enhancedSections = filter (\<lambda>section. truthy (enhancedContent section)) (sections c)
      in Obj [(''drugName'', Str (content_drugName c)),
              (''genericName'', Str (content_genericName c)),
              (''enhancedSections'', Arr (map renderSection enhancedSections))])"

definition getEnhancedSections :: "env \<Rightarrow> ToolArguments \<Rightarrow> world \<Rightarrow> McpToolResult \<times> world" where
  "getEnhancedSections e args w =
     (case getDrugByNames (drugs e) (arg_drugName args) (arg_genericName args) of
        None \<Rightarrow> (notFound args, w)
      | Some drug \<Rightarrow>
          (case getEnhancedContent e drug w of
             (enhanced, w1) \<Rightarrow>
               (\<lparr>texts = [JSON_stringify e (enhancedSectionsObject enhanced)],
                 isError = None\<rparr>,
                w1)))"

definition executeTool :: "env \<Rightarrow> McpToolCall \<Rightarrow> McpToolResult action" where
  "executeTool e toolCall w =
     (if name toolCall = ''get_drug_by_name''
      then (case getDrugByName e (arguments toolCall) w of (r, w1) \<Rightarrow> (Inr r, w1))
      else if name toolCall = ''search_drugs''
      then (Inr (searchDrugsTool e (arguments toolCall)), w)
      else if name toolCall = ''get_enhanced_sections''
      then (case getEnhancedSections e (arguments toolCall) w of (r, w1) \<Rightarrow> (Inr r, w1))
      else (Inl (Error (''Unknown tool: '' @ name toolCall)), w))"

text \<open>
  \<^verbatim>\<open>callTool\<close>. With \<^verbatim>\<open>params\<close> omitted, \<^verbatim>\<open>executeTool\<close> throws on reading
  \<^verbatim>\<open>toolCall.name\<close>, and the handler throws in turn on reading \<^verbatim>\<open>params.name\<close> for its
  log message: the error leaves \<^verbatim>\<open>callTool\<close>.
\<close>

definition callTool :: "env \<Rightarrow> rpc_id \<Rightarrow> McpToolCall option \<Rightarrow> McpResponse action" where
  "callTool e i ps w =
     (case ps of
        None \<Rightarrow> (Inl TypeError, w)
      | Some toolCall \<Rightarrow>
          (case executeTool e toolCall w of
             (Inr r, w1) \<Rightarrow>
               (Inr \<lparr>jsonrpc = ''2.0'', response_id = i, result = Some (ToolResult r),
                     error = None\<rparr>, w1)
           | (Inl err, w1) \<Rightarrow>
               (Inr \<lparr>jsonrpc = ''2.0'', response_id = i,
                     result = Some (ToolResult
                       \<lparr>texts = [''Error executing tool: '' @ message err],
                        isError = Some True\<rparr>),
                     error = None\<rparr>, w1)))"

definition handleRequest :: "env \<Rightarrow> McpRequest \<Rightarrow> McpResponse action" where
  "handleRequest e request w =
     (if rpc_method request = ''tools/list''
      then (Inr (listTools (nullish (request_id request))), w)
      else if rpc_method request = ''tools/call''
      then callTool e (nullish (request_id request)) (params request) w
      else if rpc_method request = ''initialize''
      then (Inr (initialize (nullish (request_id request))), w)
      else (Inr \<lparr>jsonrpc = ''2.0'', response_id = orNull (request_id request),
                 result = None,
                 error = Some \<lparr>error_code = - 32601,
                               error_message = ''Method not found: '' @ rpc_method request\<rparr>\<rparr>,
            w))"

section \<open>Attempts by request number\<close>

text \<open>
  Auxiliary descriptions used to state what the retried operations do: the delay slept
  after a failed attempt; the outcome of one run of each operation when the run's request
  is the \<open>k\<close>-th one sent to the provider; and the cache write, if any, that the run makes
  before it returns. Each is tied to the operation it describes by a lemma below.
\<close>

definition backoff :: "js_error \<Rightarrow> nat \<Rightarrow> nat" where
  "backoff err attempt = (if rate_limited err then 1000 * 2 ^ (attempt - 1) else 500)"

definition seoAttempt :: "env \<Rightarrow> DrugLabel \<Rightarrow> nat \<Rightarrow> js_error + jsval" where
  "seoAttempt e drug k =
     (case provider e k of
        Rejected err \<Rightarrow> Inl err
      | Replied None \<Rightarrow> Inl (Error ''No response from OpenAI'')
      | Replied (Some r) \<Rightarrow>
          if r = [] then Inl (Error ''No response from OpenAI'')
          else (case JSON_parse e r of Some v \<Rightarrow> Inr v | None \<Rightarrow> Inr (getFallbackSEOMetadata drug)))"

definition seoWrite :: "env \<Rightarrow> string \<Rightarrow> nat \<Rightarrow> world \<Rightarrow> world" where
  "seoWrite e key k =
     (case provider e k of
        Replied (Some r) \<Rightarrow>
          if r = [] then (\<lambda>t. t)
          else (case JSON_parse e r of
                  Some v \<Rightarrow> cache_set key (VJs v) 86400
                | None \<Rightarrow> (\<lambda>t. t))
      | _ \<Rightarrow> (\<lambda>t. t))"

definition summaryAttempt :: "env \<Rightarrow> DrugLabel \<Rightarrow> nat \<Rightarrow> js_error + string" where
  "summaryAttempt e drug k =
     (case provider e k of
        Rejected err \<Rightarrow> Inl err
      | Replied None \<Rightarrow> Inr (getFallbackSummary drug)
      | Replied (Some r) \<Rightarrow> Inr (if trim r \<noteq> [] then trim r else getFallbackSummary drug))"

definition sectionsAttempt :: "env \<Rightarrow> nat \<Rightarrow> js_error + jsval" where
  "sectionsAttempt e k =
     (case provider e k of
        Rejected err \<Rightarrow> Inl err
      | Replied None \<Rightarrow> Inl SyntaxError
      | Replied (Some t) \<Rightarrow> (case JSON_parse e t of Some v \<Rightarrow> Inr v | None \<Rightarrow> Inl SyntaxError))"

definition writeResult :: "string \<Rightarrow> (js_error + jsval) \<Rightarrow> world \<Rightarrow> world" where
  "writeResult key outcome =
     (case outcome of Inr v \<Rightarrow> cache_set key (VJs v) 86400 | Inl err \<Rightarrow> (\<lambda>t. t))"

section \<open>Footprints\<close>

text \<open>
  \<open>touches W w t\<close>: the world \<open>t\<close> comes from \<open>w\<close> by sending requests, sleeping, reading
  the cache, and writing cache entries \<open>(k, v)\<close> allowed by \<open>W\<close>, in any number and order.
\<close>

inductive touches :: "(string \<Rightarrow> cval \<Rightarrow> bool) \<Rightarrow> world \<Rightarrow> world \<Rightarrow> bool"
  for W :: "string \<Rightarrow> cval \<Rightarrow> bool" and w :: world where
  same: "touches W w w"
| sent: "touches W w t \<Longrightarrow> touches W w (t\<lparr>requests := requests t @ [r]\<rparr>)"
| slept: "touches W w t \<Longrightarrow> touches W w (t\<lparr>sleeps := sleeps t @ [d]\<rparr>)"
| looked: "touches W w t \<Longrightarrow> touches W w (t\<lparr>cache_log := cache_log t @ [CGet k]\<rparr>)"
| wrote: "touches W w t \<Longrightarrow> W k v \<Longrightarrow> touches W w (cache_set k v ttl t)"

text \<open>
  The cache writes of the Model Gateway for a record: a JSON value or a string under one
  of its three namespace keys.
\<close>

definition gatewayWrites :: "DrugLabel \<Rightarrow> string \<Rightarrow> cval \<Rightarrow> bool" where
  "gatewayWrites drug k v =
     ((k = ''seo_metadata:'' @ setId drug \<or> k = ''drug_summary:'' @ setId drug \<or>
       k = ''enhanced_sections:'' @ setId drug) \<and>
      (case v of VJs j \<Rightarrow> True | _ \<Rightarrow> False))"

section \<open>Well-formed caches\<close>

text \<open>
  The orchestrator stores \<^verbatim>\<open>enhancedContent || undefined\<close>: the enhanced content of a
  section is either absent or a truthy value. A cache is well formed when every section
  list and every assembled content it holds has this form. The empty cache is well
  formed, and the services keep a well-formed cache well formed.
\<close>

definition wf_sections :: "DrugSection list \<Rightarrow> bool" where
  "wf_sections ss = list_all (\<lambda>s. enhancedContent s = Undefined \<or> truthy (enhancedContent s)) ss"

definition wf_cval :: "cval \<Rightarrow> bool" where
  "wf_cval v =
     (case v of
        VContent c \<Rightarrow> wf_sections (sections c)
      | VSections ss \<Rightarrow> wf_sections ss
      | VJs j \<Rightarrow> True)"

definition wf_cache :: "world \<Rightarrow> bool" where
  "wf_cache w = (\<forall>k v ttl. cache w k = Some (v, ttl) \<longrightarrow> wf_cval v)"

text \<open>
  The cache writes of the orchestrator before it assembles the content: those of the
  Gateway, and a well-formed section list under \<^verbatim>\<open>enhanced_all_sections:<id>\<close>.
\<close>

definition orchestratorWrites :: "DrugLabel \<Rightarrow> string \<Rightarrow> cval \<Rightarrow> bool" where
  "orchestratorWrites drug k v =
     (gatewayWrites drug k v \<or>
      (k = ''enhanced_all_sections:'' @ setId drug \<and>
       (case v of VSections ss \<Rightarrow> wf_sections ss | _ \<Rightarrow> False)))"

section \<open>Example inputs\<close>

text \<open>
  The record of the spec's end-to-end scenario and of the repository's tests.
\<close>

definition aspirin :: DrugLabel where
  "aspirin =
     \<lparr>drugName = ''Aspirin'', setId = ''123'', slug = ''aspirin'', labeler = ''Test Pharma'',
      label = \<lparr>genericName = ''acetylsalicylic-acid'', labelerName = ''Test Pharma'',
               productType = ''Human Prescription Drug'', effectiveTime = ''20240101'',
               label_title = ''Aspirin'',
               indicationsAndUsage = Some ''Pain relief'',
               dosageAndAdministration = Some ''325mg daily'',
               dosageFormsAndStrengths = None, warningsAndPrecautions = None,
               adverseReactions = None, clinicalPharmacology = None, clinicalStudies = None,
               howSupplied = None, useInSpecificPopulations = None, description = None,
               nonclinicalToxicology = None, instructionsForUse = None\<rparr>\<rparr>"

text \<open>
  A provider error carrying the rate-limit signal, and a transient one without it.
\<close>

definition rate_limit_error :: js_error where
  "rate_limit_error = JsError ''Rate limit exceeded'' (Some 429) (Some ''rate_limit_exceeded'')"

definition unavailable_error :: js_error where
  "unavailable_error = JsError ''Service unavailable'' (Some 503) None"

text \<open>
  Providers: one that is rate limited twice and then answers, one whose every answer is
  text that is not JSON, one that rejects every request, and one that answers the three
  requests of a first enhancement.
\<close>

definition limited_twice :: "nat \<Rightarrow> provider_reply" where
  "limited_twice n = (if n < 2 then Rejected rate_limit_error else Replied (Some ''Relieves pain.''))"

definition garbled :: "nat \<Rightarrow> provider_reply" where
  "garbled n = Replied (Some ''not json'')"

definition unavailable :: "nat \<Rightarrow> provider_reply" where
  "unavailable n = Rejected unavailable_error"

definition scripted :: "nat \<Rightarrow> provider_reply" where
  "scripted n =
     (if n = 0 then Replied (Some ''seo'')
      else if n = 1 then Replied (Some ''Relieves pain.'')
      else Replied (Some ''sections''))"

text \<open>
  Environments with an API key: one with a given provider and a parser that accepts
  only \<^verbatim>\<open>{}\<close>, and one that parses the answers of the last provider.
\<close>

definition env0 :: "(nat \<Rightarrow> provider_reply) \<Rightarrow> env" where
  "env0 p =
     \<lparr>configured = True, provider = p, JSON_parse = (\<lambda>s. if s = ''{}'' then Some (Obj []) else None),
      JSON_stringify = (\<lambda>v. []), now = 0, toISOString = (\<lambda>n. []), drugs = [aspirin]\<rparr>"

definition env1 :: env where
  "env1 =
     \<lparr>configured = True, provider = scripted,
      JSON_parse = (\<lambda>s. if s = ''seo''
                         then Some (Obj [(''title'', Str ''Aspirin facts''),
                                         (''description'', Str ''About aspirin'')])
                         else if s = ''sections''
                         then Some (Obj [(''indicationsAndUsage'', Str ''Used for pain.'')])
                         else None),
      JSON_stringify = (\<lambda>v. ''<json>''), now = 0, toISOString = (\<lambda>n. []), drugs = [aspirin]\<rparr>"

text \<open>
  A provider that answers the first request and rejects every later one, and the
  environment of the scripted answers with that provider.
\<close>

definition answered_once :: "nat \<Rightarrow> provider_reply" where
  "answered_once n = (if n = 0 then Replied (Some ''seo'') else Rejected unavailable_error)"

definition env2 :: env where
  "env2 = env1\<lparr>provider := answered_once\<rparr>"

text \<open>
  The empty world, and worlds whose cache holds SEO metadata, or a summary, for the
  example record.
\<close>

definition world0 :: world where
  "world0 = \<lparr>cache = Map.empty, cache_log = [], requests = [], sleeps = []\<rparr>"



text \<open>
  Tool arguments naming a drug that is not loaded, and the example record.
\<close>

definition unknownDrugArgs :: ToolArguments where
  "unknownDrugArgs =
     \<lparr>arg_drugName = ''Unknown Drug'', arg_genericName = None,
      arg_search = \<lparr>query = None, labeler_filter = None, page = None, limit = None\<rparr>\<rparr>"

definition aspirinArgs :: ToolArguments where
  "aspirinArgs =
     \<lparr>arg_drugName = ''Aspirin'', arg_genericName = None,
      arg_search = \<lparr>query = None, labeler_filter = None, page = None, limit = None\<rparr>\<rparr>"

section \<open>Properties of the Basic Content Assembler\<close>

lemma foldl_pushSection:
  "foldl (\<lambda>acc kt. pushSection drug kt acc) (secs, n) tbl =
     (secs @ map (\<lambda>(i, kt). \<lparr>section_id = setId drug @ ''-'' @ fst kt, title = snd kt,
                               content = the (label_field (label drug) (fst kt)),
                               enhancedContent = Undefined, order_no = n + i\<rparr>)
                 (enumerate 0 (filter (\<lambda>kt. populated drug (fst kt)) tbl)),
      n + length (filter (\<lambda>kt. populated drug (fst kt)) tbl))"
proof (induction tbl arbitrary: secs n)
  case Nil
  show ?case by simp
next
  case (Cons kt tbl)
  obtain key ttl where kt: "kt = (key, ttl)" by (cases kt)
  show ?case
  proof (cases "populated drug key")
    case True
    then obtain c where c: "label_field (label drug) key = Some c" "c \<noteq> []"
      by (auto simp: populated_def split: option.splits)
    have step: "pushSection drug (key, ttl) (secs, n) =
        (secs @ [\<lparr>section_id = setId drug @ ''-'' @ key, title = ttl, content = c,
                   enhancedContent = Undefined, order_no = n\<rparr>], n + 1)"
      by (simp add: pushSection_def c)
    have shift: "enumerate (Suc 0) xs = map (\<lambda>(i, x). (Suc i, x)) (enumerate 0 xs)" for xs :: "(string \<times> string) list"
      by (simp add: enumerate_Suc_eq apfst_def map_prod_def)
    show ?thesis
      using True c
      by (simp add: step Cons.IH kt shift case_prod_beta o_def)
  next
    case False
    then have step: "pushSection drug (key, ttl) (secs, n) = (secs, n)"
      by (auto simp: pushSection_def populated_def split: option.splits)
    show ?thesis using False by (simp add: step Cons.IH kt)
  qed
qed

lemma buildDrugSections_eq:
  "buildDrugSections drug =
     map (\<lambda>(i, kt). \<lparr>section_id = setId drug @ ''-'' @ fst kt, title = snd kt,
                       content = the (label_field (label drug) (fst kt)),
                       enhancedContent = Undefined, order_no = 1 + i\<rparr>)
         (enumerate 0 (filter (\<lambda>kt. populated drug (fst kt)) sectionMappings))"
  by (simp add: buildDrugSections_def foldl_pushSection)




section \<open>Properties of the record lookup\<close>

lemma find_first_filter: "find P xs = (case filter P xs of [] \<Rightarrow> None | x # _ \<Rightarrow> Some x)"
  by (induction xs) auto

lemmas char_eval = toLowerCase_def lower_char_def hyphensToSpaces_def

text \<open>
  C10. As stated the claim fails when the generic name is supplied as the empty string:
  the test \<^verbatim>\<open>if (genericName)\<close> sends it to the branch for an absent generic name, so
  the record is found by its brand name although its generic name is not the empty
  string.
\<close>

theorem getDrugByNames_empty_generic_counterexample:
  "getDrugByNames [aspirin] ''aspirin'' (Some '''') = Some aspirin \<and>
   \<not> (hyphensToSpaces (toLowerCase (drugName aspirin)) = hyphensToSpaces (toLowerCase ''aspirin'') \<and>
      toLowerCase (genericName (label aspirin)) = toLowerCase '''')"
  by (simp add: getDrugByNames_def matchesEither_def aspirin_def char_eval)

text \<open>
  C10, amended. \<^verbatim>\<open>getDrugByNames\<close> returns the first of the loaded records that
  matches, and \<^verbatim>\<open>null\<close> when none does. When the generic name is absent or the empty
  string, a record matches if its brand name or its generic name, each in lower case
  with hyphens replaced by spaces, equals the drug name argument normalised the same way.
  When a non-empty generic name is given, a record matches if its normalised brand name
  equals the normalised drug name and its generic name in lower case (hyphens kept)
  equals the generic name argument in lower case.
\<close>

theorem getDrugByNames_first_match:
  "getDrugByNames loaded dn gn =
     (case filter (\<lambda>d. if gn = None \<or> gn = Some []
                        then hyphensToSpaces (toLowerCase (drugName d)) = hyphensToSpaces (toLowerCase dn) \<or>
                             hyphensToSpaces (toLowerCase (genericName (label d))) = hyphensToSpaces (toLowerCase dn)
                        else hyphensToSpaces (toLowerCase (drugName d)) = hyphensToSpaces (toLowerCase dn) \<and>
                             Some (toLowerCase (genericName (label d))) = map_option toLowerCase gn)
                   loaded of
        [] \<Rightarrow> None
      | d # _ \<Rightarrow> Some d)"
  by (cases gn)
     (simp_all add: getDrugByNames_def find_first_filter matchesEither_def [abs_def]
        matchesBoth_def [abs_def] Let_def)

theorem getDrugByNames_first_match_witness:
  "getDrugByNames [aspirin] ''Aspirin'' (Some ''Acetylsalicylic-Acid'') = Some aspirin \<and>
   getDrugByNames [aspirin] ''Aspirin'' (Some ''acetylsalicylic acid'') = None \<and>
   getDrugByNames [aspirin] ''acetylsalicylic acid'' None = Some aspirin"
  by (simp add: getDrugByNames_first_match aspirin_def char_eval)

section \<open>Properties of the retry wrapper\<close>

declare callOpenAIWithRetry.simps [simp del]

lemma retry_third: "callOpenAIWithRetry operation drug 3 w = operation w"
  by (subst callOpenAIWithRetry.simps) (simp add: maxRetries_def split: prod.splits sum.splits)

lemma retry_second:
  "callOpenAIWithRetry operation drug 2 w =
     (case operation w of
        (Inr v, w1) \<Rightarrow> (Inr v, w1)
      | (Inl err, w1) \<Rightarrow> operation (sleep (if rate_limited err then 2000 else 500) w1))"
proof -
  have three: "Suc (Suc (Suc 0)) = 3" by simp
  show ?thesis
    by (subst callOpenAIWithRetry.simps)
       (simp add: maxRetries_def baseDelay_def retry_third three split: prod.splits sum.splits)
qed

lemma retry_first:
  "callOpenAIWithRetry operation drug (Suc 0) w =
     (case operation w of
        (Inr v, w1) \<Rightarrow> (Inr v, w1)
      | (Inl err, w1) \<Rightarrow>
          callOpenAIWithRetry operation drug 2 (sleep (if rate_limited err then 1000 else 500) w1))"
proof -
  have two: "Suc (Suc 0) = 2" by simp
  show ?thesis
    by (subst callOpenAIWithRetry.simps)
       (simp add: maxRetries_def baseDelay_def two split: prod.splits sum.splits)
qed

text \<open>
  C2. Started at attempt 1, \<^verbatim>\<open>callOpenAIWithRetry\<close> runs the operation at most three
  times. If the first attempt succeeds, its result is returned. If it fails, the wrapper
  sleeps and runs the second attempt; if that fails, it sleeps and runs the third, whose
  outcome, a value or the thrown error, is the outcome of the call, with no sleep after
  it. The sleep after a failed attempt is \<open>1000 * 2 ^ (attempt - 1)\<close> ms (1000, then 2000)
  when the error carries the rate-limit signal and 500 ms otherwise. When every run of
  the operation sends one request to the provider, at most three requests are sent.
\<close>

theorem callOpenAIWithRetry_policy:
  fixes operation :: "'a action"
  shows
  "(let delay = (\<lambda>err attempt. if rate_limited err then 1000 * 2 ^ (attempt - 1) else (500::nat)) in
     (\<forall>v w1. operation w = (Inr v, w1) \<longrightarrow>
        callOpenAIWithRetry operation drug 1 w = (Inr v, w1)) \<and>
     (\<forall>e1 w1 v w2.
        operation w = (Inl e1, w1) \<and> operation (sleep (delay e1 1) w1) = (Inr v, w2) \<longrightarrow>
        callOpenAIWithRetry operation drug 1 w = (Inr v, w2)) \<and>
     (\<forall>e1 w1 e2 w2 r w3.
        operation w = (Inl e1, w1) \<and> operation (sleep (delay e1 1) w1) = (Inl e2, w2) \<and>
        operation (sleep (delay e2 2) w2) = (r, w3) \<longrightarrow>
        callOpenAIWithRetry operation drug 1 w = (r, w3)) \<and>
     (\<forall>err. rate_limited err \<longrightarrow> delay err 1 = 1000 \<and> delay err 2 = 2000) \<and>
     (\<forall>err attempt. \<not> rate_limited err \<longrightarrow> delay err attempt = 500) \<and>
     ((\<forall>t. length (requests (snd (operation t))) = Suc (length (requests t))) \<longrightarrow>
        length (requests (snd (callOpenAIWithRetry operation drug 1 w))) \<le> length (requests w) + 3))"
proof -
  have count: "length (requests (snd (callOpenAIWithRetry operation drug (Suc 0) w))) \<le> length (requests w) + 3"
    if one: "\<And>t. length (requests (snd (operation t))) = Suc (length (requests t))"
  proof -
    have sl: "requests (sleep d t) = requests t" for d t by (simp add: sleep_def)
    obtain r1 w1 where o1: "operation w = (r1, w1)" by (cases "operation w")
    have n1: "length (requests w1) = Suc (length (requests w))" using one [of w] o1 by simp
    show ?thesis
    proof (cases r1)
      case (Inr v)
      then show ?thesis using o1 n1 by (simp add: retry_first)
    next
      case (Inl e1)
      define t1 where "t1 = sleep (if rate_limited e1 then 1000 else 500) w1"
      obtain r2 w2 where o2: "operation t1 = (r2, w2)" by (cases "operation t1")
      have n2: "length (requests w2) = Suc (Suc (length (requests w)))"
        using one [of t1] o2 n1 by (simp add: t1_def sl)
      have c1: "callOpenAIWithRetry operation drug (Suc 0) w = callOpenAIWithRetry operation drug 2 t1"
        using o1 Inl by (simp add: retry_first t1_def)
      show ?thesis
      proof (cases r2)
        case (Inr v)
        then show ?thesis using o2 n2 by (simp add: c1 retry_second)
      next
        case (Inl e2)
        define t2 where "t2 = sleep (if rate_limited e2 then 2000 else 500) w2"
        have c2: "callOpenAIWithRetry operation drug 2 t1 = operation t2"
          using o2 Inl by (simp add: retry_second t2_def)
        have "length (requests (snd (operation t2))) = Suc (Suc (Suc (length (requests w))))"
          using one [of t2] n2 by (simp add: t2_def sl)
        then show ?thesis by (simp add: c1 c2)
      qed
    qed
  qed
  show ?thesis
    using count by (auto simp: Let_def retry_first retry_second)
qed

lemma summaryOperation_one_request:
  "length (requests (snd (summaryOperation e drug key t))) = Suc (length (requests t))"
  by (simp add: summaryOperation_def send_def cache_set_def Let_def split: provider_reply.splits)

lemma trim_answer: "trim ''Relieves pain.'' = ''Relieves pain.''"
  by (simp add: trim_def is_space_def)

theorem callOpenAIWithRetry_policy_witness:
  "callOpenAIWithRetry (summaryOperation (env0 limited_twice) aspirin ''drug_summary:123'') aspirin 1 world0 =
     (Inr ''Relieves pain.'',
      \<lparr>cache = [''drug_summary:123'' \<mapsto> (VJs (Str ''Relieves pain.''), 86400)],
       cache_log = [CSet ''drug_summary:123'' (VJs (Str ''Relieves pain.'')) 86400],
       requests = [ChatCompletion, ChatCompletion, ChatCompletion],
       sleeps = [1000, 2000]\<rparr>) \<and>
   length (requests (snd (callOpenAIWithRetry
        (summaryOperation (env0 limited_twice) aspirin ''drug_summary:123'') aspirin 1 world0))) \<le> 3"
proof -
  let ?op = "summaryOperation (env0 limited_twice) aspirin ''drug_summary:123''"
  let ?w1 = "world0\<lparr>requests := [ChatCompletion]\<rparr>"
  let ?w2 = "world0\<lparr>requests := [ChatCompletion, ChatCompletion], sleeps := [1000]\<rparr>"
  let ?w3 = "\<lparr>cache = [''drug_summary:123'' \<mapsto> (VJs (Str ''Relieves pain.''), 86400)],
       cache_log = [CSet ''drug_summary:123'' (VJs (Str ''Relieves pain.'')) 86400],
       requests = [ChatCompletion, ChatCompletion, ChatCompletion],
       sleeps = [1000, 2000]\<rparr>"
  have rl: "rate_limited rate_limit_error" by (simp add: rate_limited_def rate_limit_error_def)
  have o1: "?op world0 = (Inl rate_limit_error, ?w1)"
    by (simp add: summaryOperation_def send_def env0_def limited_twice_def world0_def)
  have o2: "?op (sleep (if rate_limited rate_limit_error then 1000 * 2 ^ (1 - 1) else 500) ?w1) = (Inl rate_limit_error, ?w2)"
    by (simp add: rl summaryOperation_def send_def env0_def limited_twice_def world0_def sleep_def)
  have o3: "?op (sleep (if rate_limited rate_limit_error then 1000 * 2 ^ (2 - 1) else 500) ?w2) =
      (Inr ''Relieves pain.'', ?w3)"
    by (simp add: rl summaryOperation_def send_def env0_def limited_twice_def world0_def sleep_def
          cache_set_def trim_answer Let_def)
  have one: "\<forall>t. length (requests (snd (?op t))) = Suc (length (requests t))"
    by (simp add: summaryOperation_one_request)
  note policy = callOpenAIWithRetry_policy [of ?op world0 aspirin, unfolded Let_def]
  have "callOpenAIWithRetry ?op aspirin 1 world0 = (Inr ''Relieves pain.'', ?w3)"
    using policy o1 o2 o3 by blast
  moreover have "length (requests (snd (callOpenAIWithRetry ?op aspirin 1 world0))) \<le> 3"
    using policy one by (simp add: world0_def)
  ultimately show ?thesis by simp
qed

section \<open>Properties of the Tool Protocol Adapter\<close>

text \<open>
  An unknown method is answered by an error object with code -32601 and no result; the
  id of that response is the request's id passed through \<^verbatim>\<open>|| null\<close>. The three known
  methods pass the id through \<^verbatim>\<open>?? null\<close>. A \<^verbatim>\<open>tools/call\<close> request without
  \<^verbatim>\<open>params\<close> throws instead of producing a response.
\<close>

lemma handleRequest_unknown_method:
  "rpc_method request \<notin> {''tools/list'', ''tools/call'', ''initialize''} \<Longrightarrow>
   handleRequest e request w =
     (Inr \<lparr>jsonrpc = ''2.0'', response_id = orNull (request_id request), result = None,
           error = Some \<lparr>error_code = - 32601,
                         error_message = ''Method not found: '' @ rpc_method request\<rparr>\<rparr>, w)"
  by (simp add: handleRequest_def)

lemma handleRequest_known_method_id:
  "handleRequest e request w = (Inr response, w') \<Longrightarrow>
   rpc_method request \<in> {''tools/list'', ''tools/call'', ''initialize''} \<Longrightarrow>
   response_id response = nullish (request_id request)"
  by (auto simp: handleRequest_def listTools_def initialize_def callTool_def
           split: if_splits option.splits prod.splits sum.splits)

lemma handleRequest_without_params_throws:
  "handleRequest e \<lparr>rpc_method = ''tools/call'', params = None, request_id = i\<rparr> w = (Inl TypeError, w)"
  by (simp add: handleRequest_def callTool_def)

text \<open>
  C3. The claim says that the response id equals the request's id whenever one was
  supplied. For the request \<^verbatim>\<open>{method: "nonexistent", id: 0}\<close> the response is the
  method-not-found error, with no result, but its id is \<^verbatim>\<open>null\<close> and not 0.
\<close>

theorem handleRequest_id_zero_not_echoed:
  "handleRequest e \<lparr>rpc_method = ''nonexistent'', params = None, request_id = Some (IdNum 0)\<rparr> w =
     (Inr \<lparr>jsonrpc = ''2.0'', response_id = IdNull, result = None,
           error = Some \<lparr>error_code = - 32601,
                         error_message = ''Method not found: nonexistent''\<rparr>\<rparr>, w)"
  by (simp add: handleRequest_def orNull_def)

text \<open>
  C4. A \<^verbatim>\<open>tools/call\<close> of \<^verbatim>\<open>get_drug_by_name\<close> or \<^verbatim>\<open>get_enhanced_sections\<close> whose
  name arguments resolve to no record is answered with a result, and no error object,
  whose payload has \<^verbatim>\<open>isError: true\<close> and the text \<^verbatim>\<open>Drug not found: <search term>\<close>. A
  call of a tool name that is not registered is answered with a result with
  \<^verbatim>\<open>isError: true\<close> whose text contains \<^verbatim>\<open>Unknown tool\<close>. The world is unchanged.
\<close>

theorem callTool_not_found_convention:
  "(getDrugByNames (drugs e) (arg_drugName args) (arg_genericName args) = None \<and>
    (nm = ''get_drug_by_name'' \<or> nm = ''get_enhanced_sections'') \<longrightarrow>
    handleRequest e \<lparr>rpc_method = ''tools/call'', params = Some \<lparr>name = nm, arguments = args\<rparr>,
                      request_id = i\<rparr> w =
      (Inr \<lparr>jsonrpc = ''2.0'', response_id = nullish i,
            result = Some (ToolResult \<lparr>texts = [''Drug not found: '' @ searchTerm args],
                                       isError = Some True\<rparr>),
            error = None\<rparr>, w)) \<and>
   (nm \<notin> {''get_drug_by_name'', ''search_drugs'', ''get_enhanced_sections''} \<longrightarrow>
    handleRequest e \<lparr>rpc_method = ''tools/call'', params = Some \<lparr>name = nm, arguments = args\<rparr>,
                      request_id = i\<rparr> w =
      (Inr \<lparr>jsonrpc = ''2.0'', response_id = nullish i,
            result = Some (ToolResult
                       \<lparr>texts = [''Error executing tool: '' @ ''Unknown tool'' @ '': '' @ nm],
                        isError = Some True\<rparr>),
            error = None\<rparr>, w))"
  by (auto simp: handleRequest_def callTool_def executeTool_def getDrugByName_def
        getEnhancedSections_def notFound_def Error_def)

theorem callTool_not_found_convention_witness:
  "handleRequest (env0 limited_twice)
     \<lparr>rpc_method = ''tools/call'',
      params = Some \<lparr>name = ''get_drug_by_name'', arguments = unknownDrugArgs\<rparr>,
      request_id = Some (IdNum 1)\<rparr> world0 =
     (Inr \<lparr>jsonrpc = ''2.0'', response_id = IdNum 1,
           result = Some (ToolResult \<lparr>texts = [''Drug not found: Unknown Drug''],
                                      isError = Some True\<rparr>),
           error = None\<rparr>, world0) \<and>
   handleRequest (env0 limited_twice)
     \<lparr>rpc_method = ''tools/call'',
      params = Some \<lparr>name = ''unknown_tool'', arguments = unknownDrugArgs\<rparr>,
      request_id = Some (IdNum 1)\<rparr> world0 =
     (Inr \<lparr>jsonrpc = ''2.0'', response_id = IdNum 1,
           result = Some (ToolResult \<lparr>texts = [''Error executing tool: Unknown tool: unknown_tool''],
                                      isError = Some True\<rparr>),
           error = None\<rparr>, world0)"
proof -
  have missing: "getDrugByNames (drugs (env0 limited_twice)) (arg_drugName unknownDrugArgs)
      (arg_genericName unknownDrugArgs) = None"
    by (simp add: getDrugByNames_def matchesEither_def env0_def unknownDrugArgs_def aspirin_def
          char_eval)
  have unknown: "''unknown_tool'' \<notin> {''get_drug_by_name'', ''search_drugs'', ''get_enhanced_sections''}"
    by simp
  have st: "searchTerm unknownDrugArgs = ''Unknown Drug''"
    by (simp add: searchTerm_def unknownDrugArgs_def)
  show ?thesis
    using callTool_not_found_convention [of "env0 limited_twice" unknownDrugArgs
            "''get_drug_by_name''" "Some (IdNum 1)" world0] missing
          callTool_not_found_convention [of "env0 limited_twice" unknownDrugArgs
            "''unknown_tool''" "Some (IdNum 1)" world0] unknown
    by (simp add: st nullish_def)
qed

section \<open>Properties of the Model Gateway\<close>

lemma sleeps_requests_update:
  "w\<lparr>sleeps := a, requests := b\<rparr> = w\<lparr>requests := b, sleeps := a\<rparr>"
  by simp

lemma retry_scripted:
  fixes operation :: "'a action"
  assumes shape: "\<And>t. operation t =
     (case out (length (requests t)) of
        Inl err \<Rightarrow> (Inl err, t\<lparr>requests := requests t @ [req]\<rparr>)
      | Inr v \<Rightarrow> (Inr v, fin (length (requests t)) (t\<lparr>requests := requests t @ [req]\<rparr>)))"
  shows "callOpenAIWithRetry operation drug (Suc 0) w =
     (let i = length (requests w) in
      case out i of
        Inr v \<Rightarrow> (Inr v, fin i (w\<lparr>requests := requests w @ [req]\<rparr>))
      | Inl e1 \<Rightarrow>
          (case out (i + 1) of
             Inr v \<Rightarrow> (Inr v, fin (i + 1) (w\<lparr>requests := requests w @ [req, req],
                                                sleeps := sleeps w @ [backoff e1 1]\<rparr>))
           | Inl e2 \<Rightarrow>
               (case out (i + 2) of
                  Inr v \<Rightarrow> (Inr v, fin (i + 2) (w\<lparr>requests := requests w @ [req, req, req],
                                       sleeps := sleeps w @ [backoff e1 1, backoff e2 2]\<rparr>))
                | Inl e3 \<Rightarrow> (Inl e3, w\<lparr>requests := requests w @ [req, req, req],
                                       sleeps := sleeps w @ [backoff e1 1, backoff e2 2]\<rparr>))))"
  by (simp add: retry_first retry_second shape sleep_def backoff_def Let_def sleeps_requests_update split: sum.splits)

lemma seoOperation_shape:
  "seoOperation e drug key t =
     (case seoAttempt e drug (length (requests t)) of
        Inl err \<Rightarrow> (Inl err, t\<lparr>requests := requests t @ [ChatCompletion]\<rparr>)
      | Inr v \<Rightarrow> (Inr v, seoWrite e key (length (requests t))
                            (t\<lparr>requests := requests t @ [ChatCompletion]\<rparr>)))"
  by (simp add: seoOperation_def seoAttempt_def seoWrite_def send_def
           split: provider_reply.splits option.splits)

lemma summaryOperation_shape:
  "summaryOperation e drug key t =
     (case summaryAttempt e drug (length (requests t)) of
        Inl err \<Rightarrow> (Inl err, t\<lparr>requests := requests t @ [ChatCompletion]\<rparr>)
      | Inr v \<Rightarrow> (Inr v, writeResult key (map_sum id Str (summaryAttempt e drug (length (requests t))))
                            (t\<lparr>requests := requests t @ [ChatCompletion]\<rparr>)))"
  by (simp add: summaryOperation_def summaryAttempt_def writeResult_def send_def Let_def
           split: provider_reply.splits option.splits)

lemma sectionsOperation_shape:
  "sectionsOperation e drug key t =
     (case sectionsAttempt e (length (requests t)) of
        Inl err \<Rightarrow> (Inl err, t\<lparr>requests := requests t @ [StructuredResponse (availableSections drug)]\<rparr>)
      | Inr v \<Rightarrow> (Inr v, writeResult key (sectionsAttempt e (length (requests t)))
                            (t\<lparr>requests := requests t @ [StructuredResponse (availableSections drug)]\<rparr>)))"
  by (simp add: sectionsOperation_def sectionsAttempt_def writeResult_def send_def
           split: provider_reply.splits option.splits)

lemmas seo_retry = retry_scripted [where out = "seoAttempt e drug" and fin = "seoWrite e key", OF seoOperation_shape] for e drug key
lemmas summary_retry = retry_scripted [where out = "summaryAttempt e drug"
    and fin = "\<lambda>k. writeResult key (map_sum id Str (summaryAttempt e drug k))", OF summaryOperation_shape] for e drug key
lemmas sections_retry = retry_scripted [where out = "sectionsAttempt e"
    and fin = "\<lambda>k. writeResult key (sectionsAttempt e k)", OF sectionsOperation_shape] for e drug key

lemma available_aspirin: "availableSections aspirin = [''indicationsAndUsage'', ''dosageAndAdministration'']"
  by (simp add: availableSections_def sectionsToEnhance_def aspirin_def trim_def is_space_def)

text \<open>
  C7. The claim says that an unparseable provider response makes the operation return
  its fallback at once, with no retry. \<^verbatim>\<open>enhanceAllSections\<close> parses outside any
  \<^verbatim>\<open>try\<close>: with a provider that answers text that is not JSON, it sends three
  requests, sleeps 500 ms twice, and throws the \<^verbatim>\<open>SyntaxError\<close>.
\<close>

theorem enhanceAllSections_malformed_retried:
  "enhanceAllSections (env0 garbled) aspirin world0 =
     (Inl SyntaxError,
      world0\<lparr>cache_log := [CGet ''enhanced_sections:123''],
       requests := [StructuredResponse [''indicationsAndUsage'', ''dosageAndAdministration''],
                   StructuredResponse [''indicationsAndUsage'', ''dosageAndAdministration''],
                   StructuredResponse [''indicationsAndUsage'', ''dosageAndAdministration'']],
       sleeps := [500, 500]\<rparr>)"
proof -
  have a: "sectionsAttempt (env0 garbled) k = Inl SyntaxError" for k
    by (simp add: sectionsAttempt_def env0_def garbled_def)
  have nl: "\<not> rate_limited SyntaxError"
    by (simp add: rate_limited_def SyntaxError_def Error_def)
  have key: "setId aspirin = ''123''" by (simp add: aspirin_def)
  have cfg: "configured (env0 garbled)" by (simp add: env0_def)
  show ?thesis
    by (simp add: enhanceAllSections_def cache_get_def as_js_def sections_retry a nl backoff_def
          available_aspirin key cfg world0_def Let_def)
qed

text \<open>
  The sibling operation \<^verbatim>\<open>generateSEOMetadata\<close> parses inside a \<^verbatim>\<open>try\<close>: with the same
  provider it sends one request, does not sleep, and returns its fallback.
\<close>

lemma generateSEOMetadata_malformed_fallback:
  "generateSEOMetadata (env0 garbled) aspirin world0 =
     (Inr (getFallbackSEOMetadata aspirin),
      \<lparr>cache = Map.empty, cache_log = [CGet ''seo_metadata:123''],
       requests = [ChatCompletion], sleeps = []\<rparr>)"
proof -
  have a: "seoAttempt (env0 garbled) aspirin k = Inr (getFallbackSEOMetadata aspirin)" for k
    by (simp add: seoAttempt_def env0_def garbled_def)
  have b: "seoWrite (env0 garbled) key k = (\<lambda>t. t)" for key k
    by (simp add: seoWrite_def env0_def garbled_def)
  have key: "setId aspirin = ''123''" by (simp add: aspirin_def)
  have cfg: "configured (env0 garbled)" by (simp add: env0_def)
  show ?thesis
    by (simp add: generateSEOMetadata_def cache_get_def as_js_def seo_retry a b key cfg
          world0_def Let_def)
qed

text \<open>
  C6. As stated the claim fails: when the provider rejects every request,
  \<^verbatim>\<open>enhanceAllSections\<close> makes three attempts and throws the provider's error; it does
  not return the empty map.
\<close>

theorem enhanceAllSections_failure_counterexample:
  "enhanceAllSections (env0 unavailable) aspirin world0 =
     (Inl unavailable_error,
      world0\<lparr>cache_log := [CGet ''enhanced_sections:123''],
       requests := [StructuredResponse [''indicationsAndUsage'', ''dosageAndAdministration''],
                   StructuredResponse [''indicationsAndUsage'', ''dosageAndAdministration''],
                   StructuredResponse [''indicationsAndUsage'', ''dosageAndAdministration'']],
       sleeps := [500, 500]\<rparr>)"
proof -
  have a: "sectionsAttempt (env0 unavailable) k = Inl unavailable_error" for k
    by (simp add: sectionsAttempt_def env0_def unavailable_def)
  have nl: "\<not> rate_limited unavailable_error"
    by (simp add: rate_limited_def unavailable_error_def)
  have key: "setId aspirin = ''123''" by (simp add: aspirin_def)
  have cfg: "configured (env0 unavailable)" by (simp add: env0_def)
  show ?thesis
    by (simp add: enhanceAllSections_def cache_get_def as_js_def sections_retry a nl backoff_def
          available_aspirin key cfg world0_def Let_def)
qed

lemma enhanceAllSections_closed:
  "enhanceAllSections e drug w =
     (let key = ''enhanced_sections:'' @ setId drug;
          cached = as_js (map_option fst (cache w key));
          w0 = w\<lparr>cache_log := cache_log w @ [CGet key]\<rparr>;
          i = length (requests w);
          req = StructuredResponse (availableSections drug)
      in if \<not> configured e then (Inr (Obj []), w)
         else if truthy cached then (Inr cached, w0)
         else if availableSections drug = [] then (Inr (Obj []), w0)
         else (case sectionsAttempt e i of
                 Inr v \<Rightarrow>
                   (Inr v, cache_set key (VJs v) 86400 (w0\<lparr>requests := requests w @ [req]\<rparr>))
               | Inl e1 \<Rightarrow>
                   (case sectionsAttempt e (i + 1) of
                      Inr v \<Rightarrow>
                        (Inr v, cache_set key (VJs v) 86400
                                  (w0\<lparr>requests := requests w @ [req, req],
                                       sleeps := sleeps w @ [backoff e1 1]\<rparr>))
                    | Inl e2 \<Rightarrow>
                        (case sectionsAttempt e (i + 2) of
                           Inr v \<Rightarrow>
                             (Inr v, cache_set key (VJs v) 86400
                                      (w0\<lparr>requests := requests w @ [req, req, req],
                                           sleeps := sleeps w @ [backoff e1 1, backoff e2 2]\<rparr>))
                         | Inl e3 \<Rightarrow>
                             (Inl e3, w0\<lparr>requests := requests w @ [req, req, req],
                                          sleeps := sleeps w @ [backoff e1 1, backoff e2 2]\<rparr>)))))"
  by (simp add: enhanceAllSections_def cache_get_def sections_retry Let_def writeResult_def
           split: sum.splits)

lemma touches_trans: "touches W t u \<Longrightarrow> touches W w t \<Longrightarrow> touches W w u"
  by (induction rule: touches.induct) (auto intro: touches.intros)

lemma touches_mono: "touches W w t \<Longrightarrow> (\<And>k v. W k v \<Longrightarrow> W' k v) \<Longrightarrow> touches W' w t"
  by (induction rule: touches.induct) (auto intro: touches.intros)

lemma touches_frame: "touches W w t \<Longrightarrow> (\<And>v. \<not> W k v) \<Longrightarrow> cache t k = cache w k"
  by (induction rule: touches.induct) (auto simp: cache_set_def)


lemma touches_send: "touches W w (snd (send e req w))"
  by (auto simp: send_def split: provider_reply.splits intro: touches.intros)

lemma touches_sleep: "touches W w (sleep d w)"
  by (auto simp: sleep_def intro: touches.intros)

lemma touches_cache_get: "touches W w (snd (cache_get k w))"
  by (auto simp: cache_get_def intro: touches.intros)

lemma touches_retry:
  assumes op: "\<And>t. touches W t (snd (operation t))"
  shows "touches W w (snd (callOpenAIWithRetry operation drug (Suc 0) w))"
proof -
  have step: "touches W w u" if "touches W w t" "operation t = (r, u)" for t r u
    using op [of t] that by (auto intro: touches_trans)
  have sl: "touches W w (sleep d t)" if "touches W w t" for d t
    using that touches_sleep [of W t d] by (auto intro: touches_trans)
  obtain r1 w1 where o1: "operation w = (r1, w1)" by (cases "operation w")
  have t1: "touches W w w1" using step [OF touches.same o1] .
  show ?thesis
  proof (cases r1)
    case (Inr v)
    then show ?thesis using o1 t1 by (simp add: retry_first)
  next
    case (Inl e1)
    define s1 where "s1 = sleep (if rate_limited e1 then 1000 else 500) w1"
    have ts1: "touches W w s1" unfolding s1_def by (rule sl [OF t1])
    obtain r2 w2 where o2: "operation s1 = (r2, w2)" by (cases "operation s1")
    have t2: "touches W w w2" using step [OF ts1 o2] .
    have c1: "callOpenAIWithRetry operation drug (Suc 0) w = callOpenAIWithRetry operation drug 2 s1"
      using o1 Inl by (simp add: retry_first s1_def)
    show ?thesis
    proof (cases r2)
      case (Inr v)
      then show ?thesis using o2 t2 by (simp add: c1 retry_second)
    next
      case (Inl e2)
      define s2 where "s2 = sleep (if rate_limited e2 then 2000 else 500) w2"
      have ts2: "touches W w s2" unfolding s2_def by (rule sl [OF t2])
      have c2: "callOpenAIWithRetry operation drug 2 s1 = operation s2"
        using o2 Inl by (simp add: retry_second s2_def)
      have "touches W w (snd (operation s2))"
        using step [OF ts2, of "fst (operation s2)" "snd (operation s2)"] by simp
      then show ?thesis by (simp add: c1 c2)
    qed
  qed
qed


lemma touches_seoOperation:
  assumes W: "\<And>v. W key (VJs v)"
  shows "touches W t (snd (seoOperation e drug key t))"
proof -
  have s: "touches W t (t\<lparr>requests := requests t @ [ChatCompletion]\<rparr>)"
    by (intro touches.intros)
  have "touches W t (cache_set key (VJs v) 86400 (t\<lparr>requests := requests t @ [ChatCompletion]\<rparr>))" for v
    by (rule touches.wrote [OF s W])
  then show ?thesis
    using s by (auto simp: seoOperation_def send_def split: provider_reply.splits option.splits)
qed

lemma touches_summaryOperation:
  assumes W: "\<And>v. W key (VJs v)"
  shows "touches W t (snd (summaryOperation e drug key t))"
proof -
  have s: "touches W t (t\<lparr>requests := requests t @ [ChatCompletion]\<rparr>)"
    by (intro touches.intros)
  have "touches W t (cache_set key (VJs v) 86400 (t\<lparr>requests := requests t @ [ChatCompletion]\<rparr>))" for v
    by (rule touches.wrote [OF s W])
  then show ?thesis
    using s by (auto simp: summaryOperation_def send_def Let_def split: provider_reply.splits option.splits)
qed

lemma touches_sectionsOperation:
  assumes W: "\<And>v. W key (VJs v)"
  shows "touches W t (snd (sectionsOperation e drug key t))"
proof -
  have s: "touches W t (t\<lparr>requests := requests t @ [r]\<rparr>)" for r
    by (intro touches.intros)
  have "touches W t (cache_set key (VJs v) 86400 (t\<lparr>requests := requests t @ [r]\<rparr>))" for v r
    by (rule touches.wrote [OF s W])
  then show ?thesis
    using s by (auto simp: sectionsOperation_def send_def split: provider_reply.splits option.splits)
qed

lemma touches_after_get:
  assumes "touches W (w\<lparr>cache_log := cache_log w @ [CGet k]\<rparr>) t"
  shows "touches W w t"
  using assms by (rule touches_trans) (intro touches.intros)


lemma gatewayWrites_keys:
  "gatewayWrites drug (''seo_metadata:'' @ setId drug) (VJs v)"
  "gatewayWrites drug (''drug_summary:'' @ setId drug) (VJs v)"
  "gatewayWrites drug (''enhanced_sections:'' @ setId drug) (VJs v)"
  by (simp_all add: gatewayWrites_def)

lemma seo_retry_touches:
  "touches (gatewayWrites drug) t
     (snd (callOpenAIWithRetry (seoOperation e drug (''seo_metadata:'' @ setId drug)) drug (Suc 0) t))"
  by (rule touches_retry) (rule touches_seoOperation, rule gatewayWrites_keys)

lemma summary_retry_touches:
  "touches (gatewayWrites drug) t
     (snd (callOpenAIWithRetry (summaryOperation e drug (''drug_summary:'' @ setId drug)) drug (Suc 0) t))"
  by (rule touches_retry) (rule touches_summaryOperation, rule gatewayWrites_keys)

lemma sections_retry_touches:
  "touches (gatewayWrites drug) t
     (snd (callOpenAIWithRetry (sectionsOperation e drug (''enhanced_sections:'' @ setId drug)) drug (Suc 0) t))"
  by (rule touches_retry) (rule touches_sectionsOperation, rule gatewayWrites_keys)

lemma touches_generateSEOMetadata:
  "touches (gatewayWrites drug) w (snd (generateSEOMetadata e drug w))"
  using touches_after_get [OF seo_retry_touches]
  by (auto simp: generateSEOMetadata_def cache_get_def Let_def intro: touches.intros)

lemma touches_generateDrugSummary:
  "touches (gatewayWrites drug) w (snd (generateDrugSummary e drug w))"
  using touches_after_get [OF summary_retry_touches]
  by (auto simp: generateDrugSummary_def cache_get_def Let_def intro: touches.intros)

lemma touches_enhanceAllSections:
  "touches (gatewayWrites drug) w (snd (enhanceAllSections e drug w))"
  using touches_after_get [OF sections_retry_touches]
  by (auto simp: enhanceAllSections_def cache_get_def Let_def intro: touches.intros)









lemma setId_aspirin: "setId aspirin = ''123''"
  by (simp add: aspirin_def)



lemma enhanceAllSections_unavailable:
  assumes "cache t ''enhanced_sections:123'' = None"
  shows "enhanceAllSections (env0 unavailable) aspirin t =
     (Inl unavailable_error,
      t\<lparr>cache_log := cache_log t @ [CGet ''enhanced_sections:123''],
        requests := requests t @
                  [StructuredResponse [''indicationsAndUsage'', ''dosageAndAdministration''],
                   StructuredResponse [''indicationsAndUsage'', ''dosageAndAdministration''],
                   StructuredResponse [''indicationsAndUsage'', ''dosageAndAdministration'']],
        sleeps := sleeps t @ [500, 500]\<rparr>)"
proof -
  have a: "sectionsAttempt (env0 unavailable) k = Inl unavailable_error" for k
    by (simp add: sectionsAttempt_def env0_def unavailable_def)
  have nl: "\<not> rate_limited unavailable_error"
    by (simp add: rate_limited_def unavailable_error_def)
  have cfg: "configured (env0 unavailable)" by (simp add: env0_def)
  show ?thesis
    using assms
    by (simp add: enhanceAllSections_def cache_get_def as_js_def sections_retry a nl backoff_def
          available_aspirin setId_aspirin cfg Let_def)
qed

text \<open>
  C6, amended. \<^verbatim>\<open>enhanceAllSections\<close> returns the empty map when no API key is
  configured or no section has content that is not blank, and the cached map on a cache
  hit. Otherwise it makes at most three attempts, each a structured request whose
  required keys are the non-blank sections, and returns the parsed response of the first
  attempt that succeeds, whatever its keys, after writing it to the cache. When all three
  attempts fail it throws the error of the third. Its caller
  \<^verbatim>\<open>enhanceAllSectionsAtOnce\<close> catches that error and returns the sections it was given.
\<close>

theorem enhanceAllSections_outcomes:
  "enhanceAllSections e drug w =
     (let key = ''enhanced_sections:'' @ setId drug;
          cached = as_js (map_option fst (cache w key));
          w0 = w\<lparr>cache_log := cache_log w @ [CGet key]\<rparr>;
          i = length (requests w);
          req = StructuredResponse (availableSections drug)
      in if \<not> configured e then (Inr (Obj []), w)
         else if truthy cached then (Inr cached, w0)
         else if availableSections drug = [] then (Inr (Obj []), w0)
         else (case sectionsAttempt e i of
                 Inr v \<Rightarrow>
                   (Inr v, cache_set key (VJs v) 86400 (w0\<lparr>requests := requests w @ [req]\<rparr>))
               | Inl e1 \<Rightarrow>
                   (case sectionsAttempt e (i + 1) of
                      Inr v \<Rightarrow>
                        (Inr v, cache_set key (VJs v) 86400
                                  (w0\<lparr>requests := requests w @ [req, req],
                                       sleeps := sleeps w @ [backoff e1 1]\<rparr>))
                    | Inl e2 \<Rightarrow>
                        (case sectionsAttempt e (i + 2) of
                           Inr v \<Rightarrow>
                             (Inr v, cache_set key (VJs v) 86400
                                      (w0\<lparr>requests := requests w @ [req, req, req],
                                           sleeps := sleeps w @ [backoff e1 1, backoff e2 2]\<rparr>))
                         | Inl e3 \<Rightarrow>
                             (Inl e3, w0\<lparr>requests := requests w @ [req, req, req],
                                          sleeps := sleeps w @ [backoff e1 1, backoff e2 2]\<rparr>))))) \<and>
   (as_sections (map_option fst (cache w (''enhanced_all_sections:'' @ setId drug))) = None \<and>
    enhanceAllSections e drug
      (w\<lparr>cache_log := cache_log w @ [CGet (''enhanced_all_sections:'' @ setId drug)]\<rparr>) = (Inl err, w1) \<longrightarrow>
    enhanceAllSectionsAtOnce e secs drug w = (secs, w1))"
  by (simp add: enhanceAllSections_closed enhanceAllSectionsAtOnce_def cache_get_def Let_def)

theorem enhanceAllSections_outcomes_witness:
  "enhanceAllSectionsAtOnce (env0 unavailable) (buildDrugSections aspirin) aspirin world0 =
     (buildDrugSections aspirin,
      \<lparr>cache = Map.empty,
       cache_log = [CGet ''enhanced_all_sections:123'', CGet ''enhanced_sections:123''],
       requests = [StructuredResponse [''indicationsAndUsage'', ''dosageAndAdministration''],
                   StructuredResponse [''indicationsAndUsage'', ''dosageAndAdministration''],
                   StructuredResponse [''indicationsAndUsage'', ''dosageAndAdministration'']],
       sleeps = [500, 500]\<rparr>)"
proof -
  let ?w0 = "world0\<lparr>cache_log := cache_log world0 @ [CGet (''enhanced_all_sections:'' @ setId aspirin)]\<rparr>"
  let ?w1 = "\<lparr>cache = Map.empty,
       cache_log = [CGet ''enhanced_all_sections:123'', CGet ''enhanced_sections:123''],
       requests = [StructuredResponse [''indicationsAndUsage'', ''dosageAndAdministration''],
                   StructuredResponse [''indicationsAndUsage'', ''dosageAndAdministration''],
                   StructuredResponse [''indicationsAndUsage'', ''dosageAndAdministration'']],
       sleeps = [500, 500]\<rparr>"
  have miss: "as_sections (map_option fst (cache world0 (''enhanced_all_sections:'' @ setId aspirin))) = None"
    by (simp add: as_sections_def world0_def)
  have raised: "enhanceAllSections (env0 unavailable) aspirin ?w0 = (Inl unavailable_error, ?w1)"
    by (subst enhanceAllSections_unavailable) (simp_all add: world0_def setId_aspirin)
  show ?thesis
    using enhanceAllSections_outcomes [of "env0 unavailable" aspirin world0 unavailable_error ?w1
        "buildDrugSections aspirin"] miss raised
    by blast
qed

section \<open>Properties of the Enhancement Orchestrator\<close>

lemma touches_writes:
  "touches W w t \<Longrightarrow>
   \<exists>rest. cache_log t = cache_log w @ rest \<and> (\<forall>k v ttl. CSet k v ttl \<in> set rest \<longrightarrow> W k v)"
proof (induction rule: touches.induct)
  case same
  show ?case by simp
next
  case (sent t r)
  then show ?case by simp
next
  case (slept t d)
  then show ?case by simp
next
  case (looked t k)
  then obtain rest where "cache_log t = cache_log w @ rest"
      "\<forall>k v ttl. CSet k v ttl \<in> set rest \<longrightarrow> W k v" by blast
  then have "cache_log (t\<lparr>cache_log := cache_log t @ [CGet k]\<rparr>) = cache_log w @ (rest @ [CGet k]) \<and>
      (\<forall>k' v ttl. CSet k' v ttl \<in> set (rest @ [CGet k]) \<longrightarrow> W k' v)" by simp
  then show ?case by blast
next
  case (wrote t k v ttl)
  then obtain rest where "cache_log t = cache_log w @ rest"
      "\<forall>k v ttl. CSet k v ttl \<in> set rest \<longrightarrow> W k v" by blast
  then have "cache_log (cache_set k v ttl t) = cache_log w @ (rest @ [CSet k v ttl]) \<and>
      (\<forall>k' v' ttl'. CSet k' v' ttl' \<in> set (rest @ [CSet k v ttl]) \<longrightarrow> W k' v')"
    using wrote.hyps(2) by (auto simp: cache_set_def)
  then show ?case by blast
qed

lemma touches_wf:
  "touches W w t \<Longrightarrow> wf_cache w \<Longrightarrow> (\<And>k v. W k v \<Longrightarrow> wf_cval v) \<Longrightarrow> wf_cache t"
  by (induction rule: touches.induct) (auto simp: cache_set_def wf_cache_def)

lemma orchestratorWrites_wf: "orchestratorWrites drug k v \<Longrightarrow> wf_cval v"
  by (auto simp: orchestratorWrites_def gatewayWrites_def wf_cval_def split: cval.splits)

lemma gateway_orchestrator: "gatewayWrites drug k v \<Longrightarrow> orchestratorWrites drug k v"
  by (simp add: orchestratorWrites_def)

lemma wf_buildDrugSections: "wf_sections (buildDrugSections drug)"
  by (simp add: wf_sections_def buildDrugSections_eq list_all_iff case_prod_beta)

lemma all_undefined_buildDrugSections:
  "map enhancedContent (buildDrugSections drug) = replicate (length (buildDrugSections drug)) Undefined"
  by (simp add: buildDrugSections_eq o_def case_prod_beta map_replicate_const)

lemma wf_mapSections: "mapSections d secs = Inr xs \<Longrightarrow> wf_sections xs"
proof (induction secs arbitrary: xs)
  case Nil
  then show ?case by (simp add: wf_sections_def)
next
  case (Cons s secs)
  then show ?case
    by (auto simp: wf_sections_def enhanceOne_def Let_def split: sum.splits)
qed

lemma enhanceAllSectionsAtOnce_touches:
  "touches (orchestratorWrites drug) w (snd (enhanceAllSectionsAtOnce e secs drug w))"
proof -
  let ?key = "''enhanced_all_sections:'' @ setId drug"
  let ?w0 = "w\<lparr>cache_log := cache_log w @ [CGet ?key]\<rparr>"
  have g: "touches (orchestratorWrites drug) w ?w0" by (intro touches.intros)
  obtain r w1 where en: "enhanceAllSections e drug ?w0 = (r, w1)"
    by (cases "enhanceAllSections e drug ?w0")
  have "touches (gatewayWrites drug) ?w0 w1"
    using touches_enhanceAllSections [of drug ?w0 e] en by simp
  then have "touches (orchestratorWrites drug) ?w0 w1"
    by (rule touches_mono) (rule gateway_orchestrator)
  then have t1: "touches (orchestratorWrites drug) w w1"
    using g by (rule touches_trans)
  have t2: "touches (orchestratorWrites drug) w (cache_set ?key (VSections xs) 3600 w1)"
    if "wf_sections xs" for xs
    by (rule touches.wrote [OF t1]) (simp add: orchestratorWrites_def that)
  show ?thesis
    using g t1 t2 en wf_mapSections
    by (auto simp: enhanceAllSectionsAtOnce_def cache_get_def Let_def
          split: option.splits sum.splits prod.splits)
qed

lemma wf_cacheD: "wf_cache w \<Longrightarrow> cache w k = Some (v, ttl) \<Longrightarrow> wf_cval v"
  unfolding wf_cache_def by blast

lemma wf_cached_sections:
  assumes "wf_cache w" "as_sections (map_option fst (cache w k)) = Some hit"
  shows "wf_sections hit"
proof -
  from assms(2) obtain ttl where "cache w k = Some (VSections hit, ttl)"
    by (auto simp: as_sections_def split: option.splits cval.splits)
  from wf_cacheD [OF assms(1) this] show ?thesis by (simp add: wf_cval_def)
qed

lemma wf_cached_content:
  assumes "wf_cache w" "as_content (map_option fst (cache w k)) = Some hit"
  shows "wf_sections (sections hit)"
proof -
  from assms(2) obtain ttl where "cache w k = Some (VContent hit, ttl)"
    by (auto simp: as_content_def split: option.splits cval.splits)
  from wf_cacheD [OF assms(1) this] show ?thesis by (simp add: wf_cval_def)
qed

lemma enhanceAllSectionsAtOnce_wf:
  assumes "wf_cache w" "wf_sections secs"
  shows "wf_sections (fst (enhanceAllSectionsAtOnce e secs drug w))"
  using assms wf_mapSections wf_cached_sections [OF assms(1)]
  by (auto simp: enhanceAllSectionsAtOnce_def cache_get_def Let_def
        split: option.splits sum.splits prod.splits)

lemma wf_cache_update [simp]:
  "wf_cache (w\<lparr>cache_log := l\<rparr>) = wf_cache w"
  "wf_cache (w\<lparr>requests := r\<rparr>) = wf_cache w"
  "wf_cache (w\<lparr>sleeps := sl\<rparr>) = wf_cache w"
  by (simp_all add: wf_cache_def)

lemma wf_cache_set: "wf_cache w \<Longrightarrow> wf_cval v \<Longrightarrow> wf_cache (cache_set k v ttl w)"
  by (auto simp: wf_cache_def cache_set_def)

text \<open>The try block, step by step.\<close>

lemma generateEnhancedContent_steps:
  assumes run: "generateEnhancedContent e drug key w = (r, w1)"
  obtains (seo_raised) err where "generateSEOMetadata e drug w = (Inl err, w1)" "r = Inl err"
  | (summary_raised) seo t1 err where "generateSEOMetadata e drug w = (Inr seo, t1)"
      "generateDrugSummary e drug t1 = (Inl err, w1)" "r = Inl err"
  | (title_raised) seo t1 summ t2 ss err where "generateSEOMetadata e drug w = (Inr seo, t1)"
      "generateDrugSummary e drug t1 = (Inr summ, t2)"
      "enhanceAllSectionsAtOnce e (buildDrugSections drug) drug t2 = (ss, w1)"
      "r = Inl err"
  | (assembled) seo t1 summ t2 ss t3 c where "generateSEOMetadata e drug w = (Inr seo, t1)"
      "generateDrugSummary e drug t1 = (Inr summ, t2)"
      "enhanceAllSectionsAtOnce e (buildDrugSections drug) drug t2 = (ss, t3)"
      "r = Inr c" "sections c = ss" "w1 = cache_set key (VContent c) 3600 t3"
  using run
  by (auto simp: generateEnhancedContent_def Let_def split: prod.splits sum.splits)

lemma generateEnhancedContent_raised_touches:
  assumes run: "generateEnhancedContent e drug key w = (Inl err, w1)"
  shows "touches (orchestratorWrites drug) w w1"
proof -
  have seo: "touches (orchestratorWrites drug) t (snd (generateSEOMetadata e drug t))" for t
    by (rule touches_mono [OF touches_generateSEOMetadata]) (rule gateway_orchestrator)
  have summ: "touches (orchestratorWrites drug) t (snd (generateDrugSummary e drug t))" for t
    by (rule touches_mono [OF touches_generateDrugSummary]) (rule gateway_orchestrator)
  note once = enhanceAllSectionsAtOnce_touches
  from run show ?thesis
  proof (cases rule: generateEnhancedContent_steps)
    case (seo_raised err')
    then show ?thesis using seo [of w] by simp
  next
    case (summary_raised s t1 err')
    then show ?thesis using seo [of w] summ [of t1] by (auto intro: touches_trans)
  next
    case (title_raised s t1 summ' t2 ss err')
    then show ?thesis
      using seo [of w] summ [of t1] once [of drug t2 e "buildDrugSections drug"]
      by (auto intro: touches_trans)
  next
    case (assembled s t1 summ' t2 ss t3 c)
    then show ?thesis by simp
  qed
qed

lemma generateEnhancedContent_assembled_wf:
  assumes wf: "wf_cache w" and run: "generateEnhancedContent e drug key w = (Inr c, w1)"
  shows "wf_sections (sections c) \<and> wf_cache w1"
proof -
  have seo: "touches (orchestratorWrites drug) t (snd (generateSEOMetadata e drug t))" for t
    by (rule touches_mono [OF touches_generateSEOMetadata]) (rule gateway_orchestrator)
  have summ: "touches (orchestratorWrites drug) t (snd (generateDrugSummary e drug t))" for t
    by (rule touches_mono [OF touches_generateDrugSummary]) (rule gateway_orchestrator)
  note once = enhanceAllSectionsAtOnce_touches
  from run show ?thesis
  proof (cases rule: generateEnhancedContent_steps)
    case (assembled s t1 summ' t2 ss t3 c')
    have c: "c' = c" using assembled(4) by simp
    have "touches (orchestratorWrites drug) w t2"
      using seo [of w] summ [of t1] assembled(1,2) by (auto intro: touches_trans)
    then have wf2: "wf_cache t2"
      using wf by (rule touches_wf) (rule orchestratorWrites_wf)
    have wfss: "wf_sections ss"
      using enhanceAllSectionsAtOnce_wf [OF wf2 wf_buildDrugSections, where e = e and drug = drug
          and ?drug1 = drug] assembled(3)
      by simp
    have "touches (orchestratorWrites drug) t2 t3"
      using once [of drug t2 e "buildDrugSections drug"] assembled(3) by simp
    then have wf3: "wf_cache t3"
      using wf2 by (rule touches_wf) (rule orchestratorWrites_wf)
    show ?thesis
      using wfss wf3 assembled(5,6) c by (simp add: wf_cache_set wf_cval_def)
  qed simp_all
qed

text \<open>
  Well-formedness is an invariant: the computed content has well-formed sections and the
  cache stays well formed.
\<close>

lemma getEnhancedContent_wf:
  assumes wf: "wf_cache w"
  shows "wf_sections (sections (fst (getEnhancedContent e drug w))) \<and>
         wf_cache (snd (getEnhancedContent e drug w))"
proof -
  let ?key = "''enhanced_content:'' @ setId drug"
  let ?w0 = "w\<lparr>cache_log := cache_log w @ [CGet ?key]\<rparr>"
  have wf0: "wf_cache ?w0" using wf by simp
  show ?thesis
  proof (cases "as_content (map_option fst (cache w ?key))")
    case (Some hit)
    then show ?thesis
      using wf wf_cached_content [OF wf Some]
      by (simp add: getEnhancedContent_def cache_get_def Let_def)
  next
    case None
    obtain r w1 where run: "generateEnhancedContent e drug ?key ?w0 = (r, w1)"
      by (cases "generateEnhancedContent e drug ?key ?w0")
    show ?thesis
    proof (cases r)
      case (Inr c)
      then show ?thesis
        using generateEnhancedContent_assembled_wf [OF wf0, of e drug ?key c w1] run None
        by (simp add: getEnhancedContent_def cache_get_def Let_def)
    next
      case (Inl err)
      have "touches (orchestratorWrites drug) ?w0 w1"
        using generateEnhancedContent_raised_touches run Inl by blast
      then have "wf_cache w1"
        using wf0 by (rule touches_wf) (rule orchestratorWrites_wf)
      then show ?thesis
        using run None Inl wf_buildDrugSections
        by (simp add: getEnhancedContent_def cache_get_def Let_def fallbackContent_def)
    qed
  qed
qed

lemma orchestrator_not_content:
  "\<not> orchestratorWrites drug (''enhanced_content:'' @ setId drug) v"
  by (simp add: orchestratorWrites_def gatewayWrites_def)

lemma generateSEOMetadata_raised_cache:
  assumes "generateSEOMetadata e drug t = (Inl err, t')"
  shows "cache t' = cache t"
  using assms
  by (auto simp: generateSEOMetadata_def cache_get_def seo_retry Let_def
        split: if_splits sum.splits)

lemma orchestratorWrites_keys:
  assumes "k \<noteq> ''seo_metadata:'' @ setId drug" "k \<noteq> ''drug_summary:'' @ setId drug"
    "k \<noteq> ''enhanced_sections:'' @ setId drug" "k \<noteq> ''enhanced_all_sections:'' @ setId drug"
  shows "\<not> orchestratorWrites drug k v"
  using assms by (simp add: orchestratorWrites_def gatewayWrites_def)

lemma sections_aspirin:
  "buildDrugSections aspirin =
     [\<lparr>section_id = ''123-indicationsAndUsage'', title = ''Indications and Usage'',
       content = ''Pain relief'', enhancedContent = Undefined, order_no = 1\<rparr>,
      \<lparr>section_id = ''123-dosageAndAdministration'', title = ''Dosage and Administration'',
       content = ''325mg daily'', enhancedContent = Undefined, order_no = 2\<rparr>]"
  by (simp add: buildDrugSections_def sectionMappings_def pushSection_def label_field_def
        aspirin_def)

lemma slug_aspirin: "createSlug ''Aspirin'' = ''aspirin''"
  by (simp add: createSlug_def char_eval is_word_def is_space_def trim_def)

lemma generateDrugSummary_raised_cache:
  assumes "generateDrugSummary e drug t = (Inl err, t')"
  shows "cache t' = cache t"
  using assms
  by (auto simp: generateDrugSummary_def cache_get_def summary_retry Let_def
        split: if_splits sum.splits)

lemma generateSEOMetadata_only_key:
  assumes "k \<noteq> ''seo_metadata:'' @ setId drug"
  shows "cache (snd (generateSEOMetadata e drug t)) k = cache t k"
proof -
  let ?key = "''seo_metadata:'' @ setId drug"
  let ?W = "\<lambda>k' (v :: cval). k' = ?key"
  let ?t0 = "t\<lparr>cache_log := cache_log t @ [CGet ?key]\<rparr>"
  have "touches ?W ?t0 (snd (callOpenAIWithRetry (seoOperation e drug ?key) drug (Suc 0) ?t0))"
    by (rule touches_retry) (rule touches_seoOperation, simp)
  then have "cache (snd (callOpenAIWithRetry (seoOperation e drug ?key) drug (Suc 0) ?t0)) k =
             cache ?t0 k"
    by (rule touches_frame) (use assms in simp)
  then show ?thesis
    by (simp add: generateSEOMetadata_def cache_get_def Let_def)
qed

lemma env2_attempts:
  "configured env2"
  "now env2 = 0"
  "seoAttempt env2 aspirin 0 = Inr (Obj [(''title'', Str ''Aspirin facts''), (''description'', Str ''About aspirin'')])"
  "seoWrite env2 key 0 = cache_set key (VJs (Obj [(''title'', Str ''Aspirin facts''), (''description'', Str ''About aspirin'')])) 86400"
  "summaryAttempt env2 aspirin (Suc n) = Inl unavailable_error"
  "\<not> rate_limited unavailable_error"
  by (simp_all add: env2_def env1_def answered_once_def seoAttempt_def seoWrite_def
        summaryAttempt_def rate_limited_def unavailable_error_def)

text \<open>
  C1. As stated the claim fails: the cache is not always unchanged on the error path.
  With an empty cache and a provider that answers the SEO request and then rejects the
  summary request three times, the generation raises the provider's error out of
  \<^verbatim>\<open>generateDrugSummary\<close> and \<^verbatim>\<open>getEnhancedContent\<close> returns the fallback object, but
  \<^verbatim>\<open>generateSEOMetadata\<close> had already stored its result: the cache, empty before the
  call, holds an entry under \<^verbatim>\<open>seo_metadata:123\<close> after it.
\<close>

theorem getEnhancedContent_fallback_cache_counterexample:
  "fst (generateEnhancedContent env2 aspirin ''enhanced_content:123''
          (world0\<lparr>cache_log := [CGet ''enhanced_content:123'']\<rparr>)) = Inl unavailable_error \<and>
   getEnhancedContent env2 aspirin world0 =
     (fallbackContent env2 aspirin,
      world0\<lparr>cache := (cache world0)(''seo_metadata:123'' :=
                 Some (VJs (Obj [(''title'', Str ''Aspirin facts''),
                                 (''description'', Str ''About aspirin'')]), 86400)),
             cache_log := [CGet ''enhanced_content:123'', CGet ''seo_metadata:123'',
                           CSet ''seo_metadata:123''
                             (VJs (Obj [(''title'', Str ''Aspirin facts''),
                                        (''description'', Str ''About aspirin'')])) 86400,
                           CGet ''drug_summary:123''],
             requests := [ChatCompletion, ChatCompletion, ChatCompletion, ChatCompletion],
             sleeps := [500, 500]\<rparr>) \<and>
   cache world0 ''seo_metadata:123'' = None \<and>
   cache (snd (getEnhancedContent env2 aspirin world0)) ''seo_metadata:123'' =
     Some (VJs (Obj [(''title'', Str ''Aspirin facts''), (''description'', Str ''About aspirin'')]),
           86400)"
  by (simp add: getEnhancedContent_def generateEnhancedContent_def generateSEOMetadata_def
        generateDrugSummary_def cache_get_def cache_set_def as_content_def as_js_def
        as_string_def seo_retry summary_retry env2_attempts backoff_def writeResult_def
        setId_aspirin world0_def Let_def)

text \<open>
  C1, amended. When the cache holds no content for the record and the generation, the
  \<^verbatim>\<open>try\<close> block of \<^verbatim>\<open>getEnhancedContent\<close>, raises, \<^verbatim>\<open>getEnhancedContent\<close> returns the
  fallback object and leaves the world as it was when the error was raised: the handler
  makes no cache call. Every field of the fallback is determined: \<^verbatim>\<open>id\<close>, \<^verbatim>\<open>drugName\<close> and
  \<^verbatim>\<open>genericName\<close> are those of the record, \<^verbatim>\<open>slug\<close> is the slug of the drug name,
  \<^verbatim>\<open>seoTitle\<close>, \<^verbatim>\<open>metaDescription\<close> and \<^verbatim>\<open>enhancedSummary\<close> are the template strings, which
  are not empty, the sections are those of \<^verbatim>\<open>buildDrugSections\<close>, none with enhanced
  content, and \<^verbatim>\<open>lastUpdated\<close> is the current time. The entry under
  \<^verbatim>\<open>enhanced_content:<id>\<close> is the same as before the call, and after the initial lookup
  no \<^verbatim>\<open>set\<close> was called with that key. Only entries under the four keys that the
  generation steps write for themselves can differ from before the call. When the error
  is raised by the first step, \<^verbatim>\<open>generateSEOMetadata\<close>, the whole cache is as before;
  when it is raised by the second step, \<^verbatim>\<open>generateDrugSummary\<close>, only the entry under
  \<^verbatim>\<open>seo_metadata:<id>\<close> can differ.
\<close>

theorem getEnhancedContent_fallback:
  assumes miss: "as_content (map_option fst (cache w (''enhanced_content:'' @ setId drug))) = None"
      and raised: "generateEnhancedContent e drug (''enhanced_content:'' @ setId drug)
                     (w\<lparr>cache_log := cache_log w @ [CGet (''enhanced_content:'' @ setId drug)]\<rparr>) =
                   (Inl err, w1)"
  shows "getEnhancedContent e drug w = (fallbackContent e drug, w1) \<and>
         fallbackContent e drug =
           \<lparr>content_id = setId drug, content_drugName = drugName drug,
            content_genericName = genericName (label drug),
            content_slug = createSlug (drugName drug),
            seoTitle =
              Str (drugName drug @ '' ('' @ genericName (label drug) @ '') - Drug Information''),
            metaDescription =
              Str (''Complete prescribing information for '' @ drugName drug @ '' ('' @
                   genericName (label drug) @ ''). Indications, dosage, warnings, and more.''),
            enhancedSummary =
              drugName drug @ '' is a prescription medication containing '' @
              genericName (label drug) @ ''.'',
            sections = buildDrugSections drug,
            lastUpdated = now e\<rparr> \<and>
         truthy (seoTitle (fallbackContent e drug)) \<and>
         truthy (metaDescription (fallbackContent e drug)) \<and>
         enhancedSummary (fallbackContent e drug) \<noteq> [] \<and>
         map enhancedContent (buildDrugSections drug) =
           replicate (length (buildDrugSections drug)) Undefined \<and>
         cache w1 (''enhanced_content:'' @ setId drug) = cache w (''enhanced_content:'' @ setId drug) \<and>
         (\<exists>rest. cache_log w1 = cache_log w @ CGet (''enhanced_content:'' @ setId drug) # rest \<and>
                 (\<forall>v ttl. CSet (''enhanced_content:'' @ setId drug) v ttl \<notin> set rest)) \<and>
         (\<forall>k. k \<noteq> ''seo_metadata:'' @ setId drug \<and> k \<noteq> ''drug_summary:'' @ setId drug \<and>
              k \<noteq> ''enhanced_sections:'' @ setId drug \<and>
              k \<noteq> ''enhanced_all_sections:'' @ setId drug \<longrightarrow>
              cache w1 k = cache w k) \<and>
         (generateSEOMetadata e drug
            (w\<lparr>cache_log := cache_log w @ [CGet (''enhanced_content:'' @ setId drug)]\<rparr>) =
          (Inl err, w1) \<longrightarrow> cache w1 = cache w) \<and>
         (\<forall>seo t k.
            generateSEOMetadata e drug
              (w\<lparr>cache_log := cache_log w @ [CGet (''enhanced_content:'' @ setId drug)]\<rparr>) =
            (Inr seo, t) \<and>
            generateDrugSummary e drug t = (Inl err, w1) \<and>
            k \<noteq> ''seo_metadata:'' @ setId drug \<longrightarrow>
            cache w1 k = cache w k)"
proof -
  let ?key = "''enhanced_content:'' @ setId drug"
  let ?w0 = "w\<lparr>cache_log := cache_log w @ [CGet ?key]\<rparr>"
  have result: "getEnhancedContent e drug w = (fallbackContent e drug, w1)"
    using miss raised by (simp add: getEnhancedContent_def cache_get_def Let_def)
  have fp: "touches (orchestratorWrites drug) ?w0 w1"
    using raised by (rule generateEnhancedContent_raised_touches)
  have others: "cache w1 k = cache w k" if "\<And>v. \<not> orchestratorWrites drug k v" for k
  proof -
    have "cache w1 k = cache ?w0 k" using fp that by (rule touches_frame)
    then show ?thesis by simp
  qed
  have frame: "cache w1 ?key = cache w ?key"
    by (rule others) (rule orchestrator_not_content)
  have frames: "\<forall>k. k \<noteq> ''seo_metadata:'' @ setId drug \<and> k \<noteq> ''drug_summary:'' @ setId drug \<and>
              k \<noteq> ''enhanced_sections:'' @ setId drug \<and>
              k \<noteq> ''enhanced_all_sections:'' @ setId drug \<longrightarrow>
              cache w1 k = cache w k"
    using others orchestratorWrites_keys by blast
  from touches_writes [OF fp] obtain rest where
    rest: "cache_log w1 = cache_log ?w0 @ rest"
      "\<forall>k v ttl. CSet k v ttl \<in> set rest \<longrightarrow> orchestratorWrites drug k v" by blast
  have log: "\<exists>rest. cache_log w1 = cache_log w @ CGet ?key # rest \<and>
                 (\<forall>v ttl. CSet ?key v ttl \<notin> set rest)"
    using rest orchestrator_not_content [of drug] by auto
  have first: "generateSEOMetadata e drug ?w0 = (Inl err, w1) \<longrightarrow> cache w1 = cache w"
    using generateSEOMetadata_raised_cache [of e drug ?w0 err w1] by simp
  have second: "\<forall>seo t k. generateSEOMetadata e drug ?w0 = (Inr seo, t) \<and>
            generateDrugSummary e drug t = (Inl err, w1) \<and>
            k \<noteq> ''seo_metadata:'' @ setId drug \<longrightarrow>
            cache w1 k = cache w k"
  proof (intro allI impI)
    fix seo t k
    assume h: "generateSEOMetadata e drug ?w0 = (Inr seo, t) \<and>
            generateDrugSummary e drug t = (Inl err, w1) \<and>
            k \<noteq> ''seo_metadata:'' @ setId drug"
    have "cache w1 = cache t"
      using h by (intro generateDrugSummary_raised_cache [of e drug t err w1]) simp
    moreover have "cache t k = cache ?w0 k"
      using generateSEOMetadata_only_key [of k drug e ?w0] h by simp
    ultimately show "cache w1 k = cache w k" by simp
  qed
  have strings: "truthy (seoTitle (fallbackContent e drug)) \<and>
         truthy (metaDescription (fallbackContent e drug)) \<and>
         enhancedSummary (fallbackContent e drug) \<noteq> []"
    by (simp add: fallbackContent_def)
  have shape: "fallbackContent e drug =
           \<lparr>content_id = setId drug, content_drugName = drugName drug,
            content_genericName = genericName (label drug),
            content_slug = createSlug (drugName drug),
            seoTitle =
              Str (drugName drug @ '' ('' @ genericName (label drug) @ '') - Drug Information''),
            metaDescription =
              Str (''Complete prescribing information for '' @ drugName drug @ '' ('' @
                   genericName (label drug) @ ''). Indications, dosage, warnings, and more.''),
            enhancedSummary =
              drugName drug @ '' is a prescription medication containing '' @
              genericName (label drug) @ ''.'',
            sections = buildDrugSections drug,
            lastUpdated = now e\<rparr>"
    by (simp add: fallbackContent_def)
  show ?thesis
    using result frame frames log first second strings shape
      all_undefined_buildDrugSections [of drug]
    by blast
qed

lemma generateSEOMetadata_unavailable:
  assumes "cache t ''seo_metadata:123'' = None"
  shows "generateSEOMetadata (env0 unavailable) aspirin t =
     (Inl unavailable_error,
      t\<lparr>cache_log := cache_log t @ [CGet ''seo_metadata:123''],
        requests := requests t @ [ChatCompletion, ChatCompletion, ChatCompletion],
        sleeps := sleeps t @ [500, 500]\<rparr>)"
proof -
  have a: "seoAttempt (env0 unavailable) aspirin k = Inl unavailable_error" for k
    by (simp add: seoAttempt_def env0_def unavailable_def)
  have nl: "\<not> rate_limited unavailable_error"
    by (simp add: rate_limited_def unavailable_error_def)
  have cfg: "configured (env0 unavailable)" by (simp add: env0_def)
  show ?thesis
    using assms
    by (simp add: generateSEOMetadata_def cache_get_def as_js_def seo_retry a nl backoff_def
          setId_aspirin cfg Let_def)
qed

text \<open>
  With a provider that rejects every request, the generation raises out of
  \<^verbatim>\<open>generateSEOMetadata\<close> after three attempts: the fallback for the example record is
  returned, and the cache stays empty.
\<close>

theorem getEnhancedContent_fallback_witness:
  "getEnhancedContent (env0 unavailable) aspirin world0 =
     (\<lparr>content_id = ''123'', content_drugName = ''Aspirin'',
       content_genericName = ''acetylsalicylic-acid'', content_slug = ''aspirin'',
       seoTitle = Str ''Aspirin (acetylsalicylic-acid) - Drug Information'',
       metaDescription = Str ''Complete prescribing information for Aspirin (acetylsalicylic-acid). Indications, dosage, warnings, and more.'',
       enhancedSummary = ''Aspirin is a prescription medication containing acetylsalicylic-acid.'',
       sections =
         [\<lparr>section_id = ''123-indicationsAndUsage'', title = ''Indications and Usage'',
           content = ''Pain relief'', enhancedContent = Undefined, order_no = 1\<rparr>,
          \<lparr>section_id = ''123-dosageAndAdministration'', title = ''Dosage and Administration'',
           content = ''325mg daily'', enhancedContent = Undefined, order_no = 2\<rparr>],
       lastUpdated = 0\<rparr>,
      \<lparr>cache = Map.empty,
       cache_log = [CGet ''enhanced_content:123'', CGet ''seo_metadata:123''],
       requests = [ChatCompletion, ChatCompletion, ChatCompletion],
       sleeps = [500, 500]\<rparr>)"
proof -
  let ?w0 = "world0\<lparr>cache_log := cache_log world0 @ [CGet (''enhanced_content:'' @ setId aspirin)]\<rparr>"
  let ?w1 = "\<lparr>cache = Map.empty,
       cache_log = [CGet ''enhanced_content:123'', CGet ''seo_metadata:123''],
       requests = [ChatCompletion, ChatCompletion, ChatCompletion],
       sleeps = [500, 500]\<rparr>"
  have miss: "as_content (map_option fst (cache world0 (''enhanced_content:'' @ setId aspirin))) = None"
    by (simp add: as_content_def world0_def)
  have seo: "generateSEOMetadata (env0 unavailable) aspirin ?w0 = (Inl unavailable_error, ?w1)"
    by (subst generateSEOMetadata_unavailable) (simp_all add: world0_def setId_aspirin)
  have raised: "generateEnhancedContent (env0 unavailable) aspirin (''enhanced_content:'' @ setId aspirin) ?w0 =
      (Inl unavailable_error, ?w1)"
    unfolding generateEnhancedContent_def seo by simp
  have names: "drugName aspirin = ''Aspirin''" "genericName (label aspirin) = ''acetylsalicylic-acid''"
    by (simp_all add: aspirin_def)
  have n: "now (env0 unavailable) = 0" by (simp add: env0_def)
  show ?thesis
    using getEnhancedContent_fallback [OF miss raised]
    by (simp add: names n setId_aspirin slug_aspirin sections_aspirin)
qed

text \<open>
  C9. With a well-formed cache, for a record that the name arguments resolve to, the
  tool \<^verbatim>\<open>get_enhanced_sections\<close> returns the serialised object whose
  \<^verbatim>\<open>enhancedSections\<close> are exactly the sections of the computed content that have
  \<^verbatim>\<open>enhancedContent\<close>, in order, each rendered with \<^verbatim>\<open>title\<close>, \<^verbatim>\<open>originalContent\<close> (the
  section's content) and \<^verbatim>\<open>enhancedContent\<close>.
\<close>

theorem getEnhancedSections_exact:
  assumes wf: "wf_cache w"
      and found: "getDrugByNames (drugs e) (arg_drugName args) (arg_genericName args) = Some drug"
      and computed: "getEnhancedContent e drug w = (c, w1)"
  shows "executeTool e \<lparr>name = ''get_enhanced_sections'', arguments = args\<rparr> w =
           (Inr \<lparr>texts = [JSON_stringify e (enhancedSectionsObject c)], isError = None\<rparr>, w1) \<and>
         enhancedSectionsObject c =
           Obj [(''drugName'', Str (content_drugName c)),
                (''genericName'', Str (content_genericName c)),
                (''enhancedSections'',
                 Arr (map (\<lambda>s. Obj [(''title'', Str (title s)),
                                      (''originalContent'', Str (content s)),
                                      (''enhancedContent'', enhancedContent s)])
                          (filter (\<lambda>s. enhancedContent s \<noteq> Undefined) (sections c))))]"
proof -
  have "wf_sections (sections c)"
    using getEnhancedContent_wf [OF wf, of e drug] computed by simp
  then have "filter (\<lambda>s. truthy (enhancedContent s)) (sections c) =
             filter (\<lambda>s. enhancedContent s \<noteq> Undefined) (sections c)"
    by (intro filter_cong refl) (auto simp: wf_sections_def list_all_iff)
  then show ?thesis
    using found computed
    by (simp add: executeTool_def getEnhancedSections_def enhancedSectionsObject_def
          renderSection_def [abs_def] Let_def)
qed

lemma env1_attempts:
  "configured env1"
  "seoAttempt env1 aspirin 0 = Inr (Obj [(''title'', Str ''Aspirin facts''), (''description'', Str ''About aspirin'')])"
  "seoWrite env1 key 0 = cache_set key (VJs (Obj [(''title'', Str ''Aspirin facts''), (''description'', Str ''About aspirin'')])) 86400"
  "summaryAttempt env1 aspirin (Suc 0) = Inr ''Relieves pain.''"
  "sectionsAttempt env1 (Suc (Suc 0)) = Inr (Obj [(''indicationsAndUsage'', Str ''Used for pain.'')])"
  by (simp_all add: env1_def scripted_def seoAttempt_def seoWrite_def summaryAttempt_def
        sectionsAttempt_def trim_answer)

lemma content_aspirin_env1:
  "fst (getEnhancedContent env1 aspirin world0) =
     \<lparr>content_id = ''123'', content_drugName = ''Aspirin'',
      content_genericName = ''acetylsalicylic-acid'', content_slug = ''aspirin'',
      seoTitle = Str ''Aspirin facts'', metaDescription = Str ''About aspirin'',
      enhancedSummary = ''Relieves pain.'',
      sections =
        [\<lparr>section_id = ''123-indicationsAndUsage'', title = ''Indications and Usage'',
          content = ''Pain relief'', enhancedContent = Str ''Used for pain.'', order_no = 1\<rparr>,
         \<lparr>section_id = ''123-dosageAndAdministration'', title = ''Dosage and Administration'',
          content = ''325mg daily'', enhancedContent = Undefined, order_no = 2\<rparr>],
      lastUpdated = 0\<rparr>"
proof -
  have names: "drugName aspirin = ''Aspirin''" "genericName (label aspirin) = ''acetylsalicylic-acid''"
    by (simp_all add: aspirin_def)
  have n: "now env1 = 0" by (simp add: env1_def)
  have keys: "getSectionKeyFromTitle ''Indications and Usage'' = ''indicationsAndUsage''"
     "getSectionKeyFromTitle ''Dosage and Administration'' = ''dosageAndAdministration''"
    by (simp_all add: getSectionKeyFromTitle_def titleMappings_def)
  show ?thesis
    by (simp add: getEnhancedContent_def generateEnhancedContent_def generateSEOMetadata_def
          generateDrugSummary_def enhanceAllSectionsAtOnce_def enhanceAllSections_def
          cache_get_def cache_set_def as_content_def as_js_def as_string_def as_sections_def
          seo_retry summary_retry sections_retry env1_attempts writeResult_def
          setId_aspirin names n sections_aspirin available_aspirin slug_aspirin
          enhanceOne_def keys js_index_def world0_def Let_def)
qed

theorem getEnhancedSections_exact_witness:
  "executeTool env1 \<lparr>name = ''get_enhanced_sections'', arguments = aspirinArgs\<rparr> world0 =
     (Inr \<lparr>texts = [JSON_stringify env1 (enhancedSectionsObject (fst (getEnhancedContent env1 aspirin world0)))],
           isError = None\<rparr>,
      snd (getEnhancedContent env1 aspirin world0)) \<and>
   enhancedSectionsObject (fst (getEnhancedContent env1 aspirin world0)) =
     Obj [(''drugName'', Str ''Aspirin''),
          (''genericName'', Str ''acetylsalicylic-acid''),
          (''enhancedSections'',
           Arr [Obj [(''title'', Str ''Indications and Usage''),
                     (''originalContent'', Str ''Pain relief''),
                     (''enhancedContent'', Str ''Used for pain.'')]])]"
proof -
  have wf: "wf_cache world0" by (simp add: wf_cache_def world0_def)
  have found: "getDrugByNames (drugs env1) (arg_drugName aspirinArgs) (arg_genericName aspirinArgs) =
      Some aspirin"
    by (simp add: getDrugByNames_def matchesEither_def env1_def aspirinArgs_def aspirin_def char_eval)
  have computed: "getEnhancedContent env1 aspirin world0 =
      (fst (getEnhancedContent env1 aspirin world0), snd (getEnhancedContent env1 aspirin world0))"
    by simp
  show ?thesis
    using getEnhancedSections_exact [OF wf found computed]
    by (simp add: content_aspirin_env1)
qed

text \<open>
  The end-to-end scenario: without an API key the Gateway's fallbacks are assembled.
\<close>

lemma disabled_end_to_end:
  "fst (getEnhancedContent (env0 p\<lparr>configured := False\<rparr>) aspirin world0) =
     \<lparr>content_id = ''123'', content_drugName = ''Aspirin'',
      content_genericName = ''acetylsalicylic-acid'', content_slug = ''aspirin'',
      seoTitle = Str ''Aspirin (acetylsalicylic-acid) - Prescription Info'',
      metaDescription = Str ''Complete prescribing information for Aspirin (acetylsalicylic-acid) by Test Pharma. Dosage, side effects, warnings & more.'',
      enhancedSummary = ''Aspirin is a prescription medication containing the active ingredient acetylsalicylic-acid, manufactured by Test Pharma.'',
      sections =
        [\<lparr>section_id = ''123-indicationsAndUsage'', title = ''Indications and Usage'',
          content = ''Pain relief'', enhancedContent = Undefined, order_no = 1\<rparr>,
         \<lparr>section_id = ''123-dosageAndAdministration'', title = ''Dosage and Administration'',
          content = ''325mg daily'', enhancedContent = Undefined, order_no = 2\<rparr>],
      lastUpdated = 0\<rparr>"
proof -
  have names: "drugName aspirin = ''Aspirin''" "genericName (label aspirin) = ''acetylsalicylic-acid''"
      "labeler aspirin = ''Test Pharma''"
    by (simp_all add: aspirin_def)
  have keys: "getSectionKeyFromTitle ''Indications and Usage'' = ''indicationsAndUsage''"
     "getSectionKeyFromTitle ''Dosage and Administration'' = ''dosageAndAdministration''"
    by (simp_all add: getSectionKeyFromTitle_def titleMappings_def)
  have off: "\<not> configured (env0 p\<lparr>configured := False\<rparr>)" "now (env0 p\<lparr>configured := False\<rparr>) = 0"
    by (simp_all add: env0_def)
  show ?thesis
    by (simp add: getEnhancedContent_def generateEnhancedContent_def generateSEOMetadata_def
          generateDrugSummary_def enhanceAllSectionsAtOnce_def enhanceAllSections_def
          cache_get_def cache_set_def as_content_def as_sections_def off
          getFallbackSEOMetadata_def getFallbackSummary_def
          setId_aspirin names sections_aspirin slug_aspirin
          enhanceOne_def keys js_index_def world0_def Let_def)
qed

end
